theory Spec2Isabelle
  imports Complex_Main
begin

section \<open>Laplace approximation for Gaussian processes (SingleLaplaceInferenceMethod.cpp)\<close>

text \<open>
  The file implements the single-site Laplace inference method of a Gaussian process:
  a Newton optimizer with a Brent line search, the posterior factorisation, the negative
  log marginal likelihood and its derivatives. The embedding follows the member
  functions of \<^verbatim>\<open>CSingleLaplaceInferenceMethod\<close>,
  \<^verbatim>\<open>CSingleLaplaceNewtonOptimizer\<close>, \<^verbatim>\<open>PsiLine\<close> and
  \<^verbatim>\<open>SingleLaplaceInferenceMethodCostFunction\<close>.

  Numbers: \<^verbatim>\<open>float64_t\<close> is modelled by \<^typ>\<open>real\<close>, so every result below is about
  the formulas the code evaluates, in exact arithmetic; rounding, NaN and infinite values
  are outside the model (the one infinite value the code writes down itself,
  \<^verbatim>\<open>CMath::INFTY\<close> as the first \<^verbatim>\<open>Psi_Old\<close>, is modelled by \<open>None\<close>).
  The build modelled is the one with \<^verbatim>\<open>USE_GPL_SHOGUN\<close> defined.
\<close>

subsection \<open>Vectors and matrices (SGVector, SGMatrix and the Eigen expressions used)\<close>

type_synonym vec = "real list"

text \<open>A matrix is the list of its rows.\<close>

type_synonym mat = "real list list"

definition vec_add :: "vec \<Rightarrow> vec \<Rightarrow> vec" where
  "vec_add a b = map2 (+) a b"

definition vec_sub :: "vec \<Rightarrow> vec \<Rightarrow> vec" where
  "vec_sub a b = map2 (-) a b"

text \<open>\<^verbatim>\<open>v * c\<close> and \<^verbatim>\<open>c * v\<close> for a scalar \<open>c\<close>.\<close>

definition vec_scale :: "vec \<Rightarrow> real \<Rightarrow> vec" where
  "vec_scale v c = map (\<lambda>x. x * c) v"

definition scale_vec :: "real \<Rightarrow> vec \<Rightarrow> vec" where
  "scale_vec c v = map (\<lambda>x. c * x) v"

definition vec_div :: "vec \<Rightarrow> real \<Rightarrow> vec" where
  "vec_div v c = map (\<lambda>x. x / c) v"

definition dot :: "vec \<Rightarrow> vec \<Rightarrow> real" where
  "dot a b = sum_list (map2 (*) a b)"

definition cwiseProduct :: "vec \<Rightarrow> vec \<Rightarrow> vec" where
  "cwiseProduct a b = map2 (*) a b"

definition cwiseSqrt :: "vec \<Rightarrow> vec" where
  "cwiseSqrt v = map sqrt v"

text \<open>\<^verbatim>\<open>SGVector::zero()\<close> keeps the length; \<^verbatim>\<open>SGVector::scale\<close> multiplies in place.\<close>

definition zero_vec :: "nat \<Rightarrow> vec" where
  "zero_vec n = replicate n 0"

text \<open>
  \<^verbatim>\<open>minCoeff()\<close> of a vector. Eigen asserts that the vector is not empty; the model
  leaves the empty case unspecified, as a build without assertions does.
\<close>

fun minCoeff :: "vec \<Rightarrow> real" where
  "minCoeff (x # xs) = fold min xs x"

definition mat_vec :: "mat \<Rightarrow> vec \<Rightarrow> vec" where
  "mat_vec M v = map (\<lambda>row. dot row v) M"

definition mat_scale :: "mat \<Rightarrow> real \<Rightarrow> mat" where
  "mat_scale M c = map (\<lambda>row. vec_scale row c) M"

definition mat_add :: "mat \<Rightarrow> mat \<Rightarrow> mat" where
  "mat_add A B = map2 vec_add A B"

definition mat_neg :: "mat \<Rightarrow> mat" where
  "mat_neg M = map (map uminus) M"

definition mat_cwiseProduct :: "mat \<Rightarrow> mat \<Rightarrow> mat" where
  "mat_cwiseProduct A B = map2 cwiseProduct A B"

text \<open>\<^verbatim>\<open>u * v.transpose()\<close>.\<close>

definition outer :: "vec \<Rightarrow> vec \<Rightarrow> mat" where
  "outer u v = map (\<lambda>a. map (\<lambda>b. a * b) v) u"

text \<open>\<^verbatim>\<open>MatrixXd::Identity(rows, cols)\<close>.\<close>

definition Identity :: "nat \<Rightarrow> nat \<Rightarrow> mat" where
  "Identity r c = map (\<lambda>i. map (\<lambda>j. if i = j then 1 else 0) [0..<c]) [0..<r]"

text \<open>\<^verbatim>\<open>M * d.asDiagonal()\<close> scales column \<open>j\<close> by \<open>d\<^sub>j\<close>;
  \<^verbatim>\<open>d.asDiagonal() * M\<close> scales row \<open>i\<close> by \<open>d\<^sub>i\<close>.\<close>

definition mat_mul_diag :: "mat \<Rightarrow> vec \<Rightarrow> mat" where
  "mat_mul_diag M d = map (\<lambda>row. cwiseProduct row d) M"

definition diag_mul_mat :: "vec \<Rightarrow> mat \<Rightarrow> mat" where
  "diag_mul_mat d M = map2 (\<lambda>a row. scale_vec a row) d M"

definition num_rows :: "mat \<Rightarrow> nat" where
  "num_rows M = length M"

definition num_cols :: "mat \<Rightarrow> nat" where
  "num_cols M = (case M of [] \<Rightarrow> 0 | row # _ \<Rightarrow> length row)"

text \<open>\<^verbatim>\<open>M.diagonal()\<close>, \<^verbatim>\<open>M.sum()\<close>, \<^verbatim>\<open>M.rowwise().sum()\<close>.\<close>

definition diagonal :: "mat \<Rightarrow> vec" where
  "diagonal M = map (\<lambda>i. (M ! i) ! i) [0..<min (num_rows M) (num_cols M)]"

definition mat_sum :: "mat \<Rightarrow> real" where
  "mat_sum M = sum_list (map sum_list M)"

definition rowwise_sum :: "mat \<Rightarrow> vec" where
  "rowwise_sum M = map sum_list M"

text \<open>
  The determinant by expansion along the first row: the value
  \<^verbatim>\<open>FullPivLU::determinant()\<close> has in exact arithmetic. It is used to run the code on
  concrete matrices.
\<close>

definition drop_col :: "nat \<Rightarrow> mat \<Rightarrow> mat" where
  "drop_col j M = map (\<lambda>row. take j row @ drop (Suc j) row) M"

fun determinant_n :: "nat \<Rightarrow> mat \<Rightarrow> real" where
  "determinant_n 0 M = 1"
| "determinant_n (Suc n) M =
     (case M of
        [] \<Rightarrow> 0
      | row # rest \<Rightarrow>
          sum_list (map (\<lambda>j. (if even j then 1 else - 1) * (row ! j)
                              * determinant_n n (drop_col j rest)) [0..<Suc n]))"

definition determinant :: "mat \<Rightarrow> real" where
  "determinant M = determinant_n (num_rows M) M"

subsection \<open>Collaborators\<close>

text \<open>
  Labels, features, the likelihood model, the mean function and the decompositions of
  Eigen are used through their interfaces only; their code is not part of the file, so
  they are parameters of the model.
\<close>

type_synonym labels = "real list"

type_synonym features = "real list list"

text \<open>Of \<^verbatim>\<open>ELikelihoodModelType\<close> the file tests for \<^verbatim>\<open>LT_STUDENTST\<close> only.\<close>

datatype ELikelihoodModelType = LT_STUDENTST | LT_OTHER

record likelihood_model =
  get_model_type :: ELikelihoodModelType
  get_degrees_freedom :: real
  get_log_probability_f :: "labels \<Rightarrow> vec \<Rightarrow> vec"
  get_log_probability_derivative_f :: "labels \<Rightarrow> vec \<Rightarrow> nat \<Rightarrow> vec"

record TParameter =
  m_name :: string
  get_num_elements :: int

text \<open>The index argument of \<^verbatim>\<open>get_parameter_derivative\<close> defaults to \<open>-1\<close>.\<close>

record mean_function =
  get_mean_vector :: "features \<Rightarrow> vec"
  get_parameter_derivative :: "features \<Rightarrow> TParameter \<Rightarrow> int \<Rightarrow> vec"

text \<open>
  The decompositions: \<^verbatim>\<open>FullPivLU\<close> (determinant, inverse),
  \<^verbatim>\<open>LLT\<close> (the upper factor, solve) and the triangular solves against the upper
  factor and its adjoint.
\<close>

record eigen =
  lu_determinant :: "mat \<Rightarrow> real"
  lu_inverse :: "mat \<Rightarrow> mat"
  llt_matrixU :: "mat \<Rightarrow> mat"
  llt_solve :: "mat \<Rightarrow> vec \<Rightarrow> vec"
  upper_solve :: "mat \<Rightarrow> mat \<Rightarrow> mat"
  upper_adjoint_solve :: "mat \<Rightarrow> mat \<Rightarrow> mat"

text \<open>\<^verbatim>\<open>REQUIRE\<close> throws a \<^verbatim>\<open>ShogunException\<close> with a message; the model keeps
  the format string of the message.\<close>

datatype error = ShogunException string

subsection \<open>The minimizers\<close>

text \<open>The members of \<^verbatim>\<open>CSingleLaplaceNewtonOptimizer\<close>; its target object is passed
  to \<open>minimize\<close> as an argument.\<close>

record newton_optimizer =
  m_iter :: int
  m_tolerance :: real
  m_opt_tolerance :: real
  m_opt_max :: real

text \<open>\<^verbatim>\<open>CSingleLaplaceNewtonOptimizer::init\<close>.\<close>

definition init :: newton_optimizer where
  "init = \<lparr>m_iter = 20, m_tolerance = 1 / 10 ^ 6, m_opt_tolerance = 1 / 10 ^ 6, m_opt_max = 10\<rparr>"

text \<open>
  A \<^verbatim>\<open>FirstOrderMinimizer\<close> sees the cost function only: it reads the cost and the
  gradient at the current variable and writes the variable (alpha) through the reference
  it obtained. Its effect is the alpha it leaves, given the cost, the gradient and the
  alpha it starts from.
\<close>

type_synonym first_order_minimizer = "(vec \<Rightarrow> real) \<Rightarrow> (vec \<Rightarrow> vec) \<Rightarrow> vec \<Rightarrow> vec"

datatype minimizer =
  Newton newton_optimizer
| FirstOrder first_order_minimizer
| OtherMinimizer

text \<open>
  Brent's \<^verbatim>\<open>local_min(a, b, t, f, x)\<close> calls the objective at a sequence of points
  and returns the least value found; it touches the state of the inference method only
  through these calls. A line search is therefore given by the points it evaluates, in
  order, the minimizing point and the value returned, as a function of the interval, the
  tolerance and the objective.
\<close>

record local_min_result =
  evaluations :: "real list"
  x_min :: real
  fx :: real

type_synonym line_search = "real \<Rightarrow> real \<Rightarrow> real \<Rightarrow> (real \<Rightarrow> real) \<Rightarrow> local_min_result"

subsection \<open>The state of the inference method\<close>

record state =
  m_alpha :: vec
  m_mu :: vec
  m_mean_f :: vec
  m_ktrtr :: mat
  m_log_scale :: real
  m_W :: vec
  m_sW :: vec
  m_dlp :: vec
  m_d2lp :: vec
  m_d3lp :: vec
  m_L :: mat
  m_Z :: mat
  m_g :: vec
  m_dfhat :: vec
  m_Psi :: real
  m_labels :: labels
  m_features :: features
  m_model :: likelihood_model
  m_mean :: mean_function
  m_minimizer :: minimizer

text \<open>\<^verbatim>\<open>std::exp(m_log_scale * 2.0)\<close>.\<close>

definition scale2 :: "state \<Rightarrow> real" where
  "scale2 s = exp (m_log_scale s * 2)"

text \<open>\<open>A = I + K * scale\<^sup>2 * diag(d)\<close>, the matrix handed to \<^verbatim>\<open>FullPivLU\<close>.\<close>

definition lu_matrix :: "state \<Rightarrow> vec \<Rightarrow> mat" where
  "lu_matrix s d =
     mat_add (Identity (num_rows (m_ktrtr s)) (num_cols (m_ktrtr s)))
       (mat_mul_diag (mat_scale (m_ktrtr s) (scale2 s)) d)"

text \<open>\<open>(sW * sW\<^sup>T) .* (K * scale\<^sup>2) + I\<close>, the matrix handed to \<^verbatim>\<open>LLT\<close>.\<close>

definition llt_matrix :: "state \<Rightarrow> vec \<Rightarrow> mat" where
  "llt_matrix s sW =
     mat_add (mat_cwiseProduct (outer sW sW) (mat_scale (m_ktrtr s) (scale2 s)))
       (Identity (num_rows (m_ktrtr s)) (num_cols (m_ktrtr s)))"

subsection \<open>update_init\<close>

definition update_init :: "state \<Rightarrow> state" where
  "update_init s =
     (let mean_f = get_mean_vector (m_mean s) (m_features s);
          s1 = s\<lparr>m_mean_f := mean_f\<rparr>;
          ktrtr = m_ktrtr s1
      in if length (m_alpha s1) \<noteq> length (m_labels s1) then
           let alpha = zero_vec (length (m_labels s1));
               mu = mean_f;
               Psi_New = - sum_list (get_log_probability_f (m_model s1) (m_labels s1) mu)
           in s1\<lparr>m_alpha := alpha, m_mu := mu, m_Psi := Psi_New\<rparr>
         else
           let alpha = m_alpha s1;
               mu = vec_add (mat_vec (mat_scale ktrtr (scale2 s1)) alpha) mean_f;
               Psi_New = dot alpha (vec_sub mu mean_f) / 2
                         - sum_list (get_log_probability_f (m_model s1) (m_labels s1) mu);
               Psi_Def = - sum_list (get_log_probability_f (m_model s1) (m_labels s1) mean_f)
           in if Psi_Def < Psi_New
              then s1\<lparr>m_alpha := zero_vec (length alpha), m_mu := mean_f, m_Psi := Psi_Def\<rparr>
              else s1\<lparr>m_alpha := alpha, m_mu := mu, m_Psi := Psi_New\<rparr>)"

subsection \<open>PsiLine: the objective of the line search\<close>

text \<open>
  The value members of \<^verbatim>\<open>PsiLine\<close>. Its pointer members \<^verbatim>\<open>alpha\<close>,
  \<^verbatim>\<open>dlp\<close>, \<^verbatim>\<open>W\<close>, \<^verbatim>\<open>f\<close>, \<^verbatim>\<open>m\<close>, \<^verbatim>\<open>lik\<close> and
  \<^verbatim>\<open>lab\<close> point to \<open>m_alpha\<close>, \<open>m_dlp\<close>, \<open>m_W\<close>, \<open>m_mu\<close>, \<open>m_mean_f\<close>,
  \<open>m_model\<close> and \<open>m_labels\<close> of the target.
\<close>

record PsiLine =
  line_log_scale :: real
  line_K :: mat
  line_dalpha :: vec
  line_start_alpha :: vec

text \<open>\<^verbatim>\<open>PsiLine::operator()\<close>: the value and the state it leaves.\<close>

definition PsiLine_call :: "PsiLine \<Rightarrow> real \<Rightarrow> state \<Rightarrow> real \<times> state" where
  "PsiLine_call func x s =
     (let alpha = vec_add (line_start_alpha func) (scale_vec x (line_dalpha func));
          f = vec_add (vec_scale (mat_vec (line_K func) alpha) (exp (line_log_scale func * 2)))
                (m_mean_f s);
          dlp = get_log_probability_derivative_f (m_model s) (m_labels s) f 1;
          W = vec_scale (get_log_probability_derivative_f (m_model s) (m_labels s) f 2) (- 1);
          result = dot alpha (vec_sub f (m_mean_f s)) / 2
                   - sum_list (get_log_probability_f (m_model s) (m_labels s) f)
      in (result, s\<lparr>m_alpha := alpha, m_mu := f, m_dlp := dlp, m_W := W\<rparr>))"

subsection \<open>CSingleLaplaceNewtonOptimizer::minimize\<close>

text \<open>Lines 203 to 220: the regularisation of a \<open>W\<close> with a negative entry.\<close>

definition regularize :: "state \<Rightarrow> state" where
  "regularize s =
     (if minCoeff (m_W s) < 0 then
        let df = (if get_model_type (m_model s) = LT_STUDENTST
                  then get_degrees_freedom (m_model s) else 1)
        in s\<lparr>m_W := vec_add (m_W s) (scale_vec (2 / df) (cwiseProduct (m_dlp s) (m_dlp s)))\<rparr>
      else s)"

text \<open>Line 223.\<close>

definition compute_sW :: "state \<Rightarrow> state" where
  "compute_sW s = s\<lparr>m_sW := cwiseSqrt (m_W s)\<rparr>"

text \<open>Lines 225 to 240: the Newton direction.\<close>

definition newton_dalpha :: "eigen \<Rightarrow> state \<Rightarrow> vec" where
  "newton_dalpha E s =
     (let L = llt_matrix s (m_sW s);
          b = vec_add (cwiseProduct (m_W s) (vec_sub (m_mu s) (m_mean_f s))) (m_dlp s)
      in vec_sub
           (vec_sub b
              (cwiseProduct (m_sW s)
                 (llt_solve E L
                    (cwiseProduct (m_sW s) (vec_scale (mat_vec (m_ktrtr s) b) (scale2 s))))))
           (m_alpha s))"

text \<open>Lines 244 to 259: the line search along the direction; every evaluation of the
  objective leaves its state.\<close>

definition brent_step :: "line_search \<Rightarrow> newton_optimizer \<Rightarrow> vec \<Rightarrow> state \<Rightarrow> real \<times> state" where
  "brent_step local_min opt dalpha s =
     (let func = \<lparr>line_log_scale = m_log_scale s, line_K = m_ktrtr s,
                  line_dalpha = dalpha, line_start_alpha = m_alpha s\<rparr>;
          r = local_min 0 (m_opt_max opt) (m_opt_tolerance opt)
                (\<lambda>x. fst (PsiLine_call func x s))
      in (fx r, fold (\<lambda>x t. snd (PsiLine_call func x t)) (evaluations r) s))"

text \<open>The body of the loop after \<^verbatim>\<open>Psi_Old = Psi_New; iter++\<close>.\<close>

definition minimize_iteration ::
  "eigen \<Rightarrow> line_search \<Rightarrow> newton_optimizer \<Rightarrow> state \<Rightarrow> real \<times> state" where
  "minimize_iteration E local_min opt s =
     (let s1 = compute_sW (regularize s)
      in brent_step local_min opt (newton_dalpha E s1) s1)"

text \<open>\<^verbatim>\<open>Psi_Old - Psi_New > m_tolerance\<close>, where \<open>None\<close> is the initial
  \<^verbatim>\<open>CMath::INFTY\<close> of \<open>Psi_Old\<close>.\<close>

definition decrease_exceeds :: "real option \<Rightarrow> real \<Rightarrow> real \<Rightarrow> bool" where
  "decrease_exceeds Psi_Old Psi_New tol =
     (case Psi_Old of None \<Rightarrow> True | Some old \<Rightarrow> old - Psi_New > tol)"

text \<open>The local variables of \<open>minimize\<close> and its target.\<close>

record loop_state =
  Psi_Old :: "real option"
  Psi_New :: real
  iter :: int
  obj :: state

text \<open>The condition of the \<^verbatim>\<open>while\<close> loop (line 195) and its body.\<close>

definition continue_loop :: "newton_optimizer \<Rightarrow> loop_state \<Rightarrow> bool" where
  "continue_loop opt st \<longleftrightarrow>
     decrease_exceeds (Psi_Old st) (Psi_New st) (m_tolerance opt) \<and> iter st < m_iter opt"

definition loop_body ::
  "eigen \<Rightarrow> line_search \<Rightarrow> newton_optimizer \<Rightarrow> loop_state \<Rightarrow> loop_state" where
  "loop_body E local_min opt st =
     \<lparr>Psi_Old = Some (Psi_New st),
      Psi_New = fst (minimize_iteration E local_min opt (obj st)),
      iter = iter st + 1,
      obj = snd (minimize_iteration E local_min opt (obj st))\<rparr>"

function minimize_loop ::
  "eigen \<Rightarrow> line_search \<Rightarrow> newton_optimizer \<Rightarrow> loop_state \<Rightarrow> loop_state" where
  "minimize_loop E local_min opt st =
     (if continue_loop opt st
      then minimize_loop E local_min opt (loop_body E local_min opt st)
      else st)"
  by pat_completeness auto
termination
  by (relation "measure (\<lambda>(E, local_min, opt, st). nat (m_iter opt - iter st))")
    (auto simp: continue_loop_def loop_body_def)

text \<open>Lines 180 to 191: \<open>W\<close> and \<open>dlp\<close> at the current \<open>f\<close>, and a fresh \<open>sW\<close>, whose
  content is not initialised.\<close>

definition minimize_prepare :: "state \<Rightarrow> state" where
  "minimize_prepare s =
     (let s1 = s\<lparr>m_W := vec_scale
                   (get_log_probability_derivative_f (m_model s) (m_labels s) (m_mu s) 2) (- 1)\<rparr>;
          s2 = s1\<lparr>m_dlp :=
                   get_log_probability_derivative_f (m_model s1) (m_labels s1) (m_mu s1) 1\<rparr>
      in s2\<lparr>m_sW := replicate (length (m_W s2)) undefined\<rparr>)"

text \<open>Lines 169, 170 and 193: the local variables before the loop, for the target \<open>s\<close>.\<close>

definition loop_start :: "state \<Rightarrow> loop_state" where
  "loop_start s = \<lparr>Psi_Old = None, Psi_New = m_Psi s, iter = 0, obj = minimize_prepare s\<rparr>"

text \<open>What \<open>minimize\<close> returns and leaves: the value, whether the warning was printed,
  the number of iterations made, and the state of the target.\<close>

record minimize_result =
  Psi_returned :: real
  warned :: bool
  iterations :: int
  target :: state

definition minimize ::
  "eigen \<Rightarrow> line_search \<Rightarrow> newton_optimizer \<Rightarrow> state option \<Rightarrow> error + minimize_result" where
  "minimize E local_min opt m_obj =
     (case m_obj of
        None \<Rightarrow> Inl (ShogunException ''Object not set'')
      | Some s \<Rightarrow>
          let st = minimize_loop E local_min opt (loop_start s)
          in Inr \<lparr>Psi_returned = Psi_New st,
                  warned = (decrease_exceeds (Psi_Old st) (Psi_New st) (m_tolerance opt)
                            \<and> iter st \<ge> m_iter opt),
                  iterations = iter st,
                  target = obj st\<rparr>)"

text \<open>
  The loop states at which the condition of the loop is evaluated, in order: the first is
  the state before the loop, the last the one the loop ends in.
\<close>

function loop_tests ::
  "eigen \<Rightarrow> line_search \<Rightarrow> newton_optimizer \<Rightarrow> loop_state \<Rightarrow> loop_state list" where
  "loop_tests E local_min opt st =
     st # (if continue_loop opt st
           then loop_tests E local_min opt (loop_body E local_min opt st)
           else [])"
  by pat_completeness auto
termination
  by (relation "measure (\<lambda>(E, local_min, opt, st). nat (m_iter opt - iter st))")
    (auto simp: continue_loop_def loop_body_def)

text \<open>
  The condition of the loop as the specification words it, with the absolute value of
  the change of \<open>Psi\<close>.
\<close>

definition spec_continue_loop :: "newton_optimizer \<Rightarrow> loop_state \<Rightarrow> bool" where
  "spec_continue_loop opt st \<longleftrightarrow>
     (case Psi_Old st of None \<Rightarrow> True | Some old \<Rightarrow> \<bar>old - Psi_New st\<bar> > m_tolerance opt)
     \<and> iter st < m_iter opt"

subsection \<open>get_psi_wrt_alpha, get_gradient_wrt_alpha and the cost function\<close>

definition get_psi_wrt_alpha :: "state \<Rightarrow> real" where
  "get_psi_wrt_alpha s =
     (let f = vec_add (mat_vec (m_ktrtr s) (vec_scale (m_alpha s) (scale2 s))) (m_mean_f s);
          psi = dot (m_alpha s) (vec_sub f (m_mean_f s)) * (1 / 2)
      in psi - sum_list (get_log_probability_f (m_model s) (m_labels s) f))"

text \<open>The vector \<open>get_gradient_wrt_alpha\<close> writes into its argument.\<close>

definition gradient_wrt_alpha :: "state \<Rightarrow> vec" where
  "gradient_wrt_alpha s =
     (let f = vec_add (mat_vec (m_ktrtr s) (vec_scale (m_alpha s) (scale2 s))) (m_mean_f s);
          dlp_f = get_log_probability_derivative_f (m_model s) (m_labels s) f 1
      in mat_vec (m_ktrtr s) (vec_scale (vec_sub (m_alpha s) dlp_f) (scale2 s)))"

definition get_gradient_wrt_alpha :: "state \<Rightarrow> vec \<Rightarrow> error + vec" where
  "get_gradient_wrt_alpha s gradient =
     (if length gradient \<noteq> length (m_alpha s)
      then Inl (ShogunException
                  ''The length of gradients (%d) should the same as the length of parameters (%d)'')
      else Inr (gradient_wrt_alpha s))"

text \<open>\<^verbatim>\<open>SingleLaplaceInferenceMethodCostFunction\<close>.\<close>

record cost_function =
  m_obj :: "state option"
  m_derivatives :: vec

definition get_cost :: "cost_function \<Rightarrow> error + real" where
  "get_cost c =
     (case m_obj c of
        None \<Rightarrow> Inl (ShogunException ''Object not set'')
      | Some s \<Rightarrow> Inr (get_psi_wrt_alpha s))"

definition obtain_variable_reference :: "cost_function \<Rightarrow> error + vec \<times> cost_function" where
  "obtain_variable_reference c =
     (case m_obj c of
        None \<Rightarrow> Inl (ShogunException ''Object not set'')
      | Some s \<Rightarrow>
          Inr (m_alpha s, c\<lparr>m_derivatives := replicate (length (m_alpha s)) undefined\<rparr>))"

definition get_gradient :: "cost_function \<Rightarrow> error + vec \<times> cost_function" where
  "get_gradient c =
     (case m_obj c of
        None \<Rightarrow> Inl (ShogunException ''Object not set'')
      | Some s \<Rightarrow>
          (case get_gradient_wrt_alpha s (m_derivatives c) of
             Inl e \<Rightarrow> Inl e
           | Inr g \<Rightarrow> Inr (g, c\<lparr>m_derivatives := g\<rparr>)))"

text \<open>
  The invariant of the data model, \<open>f = K * scale\<^sup>2 * alpha + mean\<close>, between vectors
  and a matrix that fit: the kernel matrix has one row for each entry of the mean vector
  and one column for each entry of alpha.
\<close>

definition f_consistent :: "state \<Rightarrow> bool" where
  "f_consistent s \<longleftrightarrow>
     length (m_mean_f s) = num_rows (m_ktrtr s)
     \<and> list_all (\<lambda>row. length row = length (m_alpha s)) (m_ktrtr s)
     \<and> m_mu s = vec_add (mat_vec (mat_scale (m_ktrtr s) (scale2 s)) (m_alpha s)) (m_mean_f s)"

subsection \<open>update_alpha\<close>

text \<open>Lines 543 to 555: \<open>f = K * alpha + m\<close> after the minimizer has returned.\<close>

definition recompute_mu :: "state \<Rightarrow> state" where
  "recompute_mu s =
     s\<lparr>m_mu := vec_add (mat_vec (mat_scale (m_ktrtr s) (scale2 s)) (m_alpha s)) (m_mean_f s)\<rparr>"

text \<open>Lines 530 to 538: the state when the first-order minimizer has returned. It has
  written alpha through the reference; nothing else of the state is touched.\<close>

definition first_order_minimize :: "first_order_minimizer \<Rightarrow> state \<Rightarrow> state" where
  "first_order_minimize minimizer s =
     s\<lparr>m_alpha := minimizer (\<lambda>a. get_psi_wrt_alpha (s\<lparr>m_alpha := a\<rparr>))
                      (\<lambda>a. gradient_wrt_alpha (s\<lparr>m_alpha := a\<rparr>)) (m_alpha s)\<rparr>"

definition update_alpha :: "eigen \<Rightarrow> line_search \<Rightarrow> state \<Rightarrow> error + state" where
  "update_alpha E local_min s =
     (case m_minimizer s of
        Newton opt \<Rightarrow>
          (case minimize E local_min opt (Some s) of
             Inl e \<Rightarrow> Inl e
           | Inr r \<Rightarrow> Inr (recompute_mu (target r)))
      | FirstOrder minimizer \<Rightarrow> Inr (recompute_mu (first_order_minimize minimizer s))
      | OtherMinimizer \<Rightarrow> Inl (ShogunException ''The provided minimizer is not supported''))"

subsection \<open>update_chol\<close>

definition update_chol :: "eigen \<Rightarrow> state \<Rightarrow> state" where
  "update_chol E s =
     (let dlp = get_log_probability_derivative_f (m_model s) (m_labels s) (m_mu s) 1;
          d2lp = get_log_probability_derivative_f (m_model s) (m_labels s) (m_mu s) 2;
          d3lp = get_log_probability_derivative_f (m_model s) (m_labels s) (m_mu s) 3;
          W = vec_scale d2lp (- 1);
          sW = (if minCoeff W > 0 then cwiseSqrt W
                else map (\<lambda>w. sqrt ((\<bar>w\<bar> + w) / 2) - sqrt ((\<bar>w\<bar> - w) / 2)) W);
          s1 = s\<lparr>m_dlp := dlp, m_d2lp := d2lp, m_d3lp := d3lp, m_W := W, m_sW := sW\<rparr>;
          L = (if minCoeff W < 0
               then diag_mul_mat W (mat_neg (lu_inverse E (lu_matrix s1 W)))
               else llt_matrixU E (llt_matrix s1 sW))
      in s1\<lparr>m_L := L\<rparr>)"

subsection \<open>get_negative_log_marginal_likelihood\<close>

text \<open>The state is the one \<open>update\<close> has left; the test of the parameter hash belongs to
  the base class.\<close>

definition get_negative_log_marginal_likelihood :: "eigen \<Rightarrow> state \<Rightarrow> real" where
  "get_negative_log_marginal_likelihood E s =
     (let mean = get_mean_vector (m_mean s) (m_features s);
          lp = sum_list (get_log_probability_f (m_model s) (m_labels s) (m_mu s))
      in if minCoeff (m_W s) < 0
         then dot (m_alpha s) (vec_sub (m_mu s) mean) / 2 - lp
              + ln (lu_determinant E (lu_matrix s (m_sW s))) / 2
         else dot (m_alpha s) (vec_sub (m_mu s) mean) / 2 - lp
              + sum_list (map ln (diagonal (m_L s))))"

subsection \<open>update_deriv\<close>

text \<open>\<^verbatim>\<open>MatrixXd(d.asDiagonal())\<close> and \<^verbatim>\<open>M.colwise().sum().adjoint()\<close>.\<close>

definition asDiagonal :: "vec \<Rightarrow> mat" where
  "asDiagonal d =
     map (\<lambda>i. map (\<lambda>j. if i = j then d ! i else 0) [0..<length d]) [0..<length d]"

definition colwise_sum :: "mat \<Rightarrow> vec" where
  "colwise_sum M = map (\<lambda>j. sum_list (map (\<lambda>row. row ! j) M)) [0..<num_cols M]"

definition update_deriv :: "eigen \<Rightarrow> state \<Rightarrow> state" where
  "update_deriv E s =
     (let K = m_ktrtr s; L = m_L s; sW = m_sW s;
          (Z, g) =
            (if minCoeff (m_W s) < 0 then
               let iA = lu_inverse E (lu_matrix s (m_W s))
               in (mat_neg L,
                   vec_div (rowwise_sum (mat_cwiseProduct iA (mat_scale K (scale2 s)))) 2)
             else
               let Z1 = upper_adjoint_solve E L (asDiagonal sW);
                   Z2 = upper_solve E L Z1;
                   C = upper_adjoint_solve E L (mat_scale (diag_mul_mat sW K) (scale2 s))
               in (diag_mul_mat sW Z2,
                   vec_div (vec_sub (vec_scale (diagonal K) (scale2 s))
                              (colwise_sum (mat_cwiseProduct C C))) 2))
      in s\<lparr>m_Z := Z, m_g := g, m_dfhat := cwiseProduct g (m_d3lp s)\<rparr>)"

subsection \<open>The derivatives of the negative log marginal likelihood\<close>

text \<open>\<^verbatim>\<open>v.adjoint() * M\<close>, a row vector.\<close>

definition vec_mat :: "vec \<Rightarrow> mat \<Rightarrow> vec" where
  "vec_mat v M = map (\<lambda>j. dot v (map (\<lambda>row. row ! j) M)) [0..<num_cols M]"

text \<open>The method writes no member: the state is returned as it was given.\<close>

definition get_derivative_wrt_inference_method ::
  "state \<Rightarrow> TParameter \<Rightarrow> (error + vec) \<times> state" where
  "get_derivative_wrt_inference_method s param =
     (if m_name param \<noteq> ''log_scale'' then
        (Inl (ShogunException
                ''Can't compute derivative of the nagative log marginal likelihood wrt %s.%s parameter''),
         s)
      else
        let K = m_ktrtr s; Z = m_Z s;
            r0 = mat_sum (mat_cwiseProduct Z K) / 2 - dot (vec_mat (m_alpha s) K) (m_alpha s) / 2;
            b = mat_vec K (m_dlp s);
            r1 = r0 - dot (m_dfhat s)
                        (vec_sub b (mat_vec (mat_scale K (scale2 s)) (mat_vec Z b)));
            r2 = r1 * (scale2 s * 2)
        in (Inr [r2], s))"

text \<open>
  \<^verbatim>\<open>get_num_elements()\<close> returns an \<^verbatim>\<open>int64_t\<close>; the constructor of
  \<^verbatim>\<open>SGVector\<close> takes an \<^verbatim>\<open>index_t\<close>, a signed integer of 32 bits, so the
  number is narrowed: it wraps around modulo \<open>2\<^sup>3\<^sup>2\<close> into \<open>- 2\<^sup>3\<^sup>1 \<dots> 2\<^sup>3\<^sup>1 - 1\<close>.
\<close>

definition index_t_of_int64 :: "int \<Rightarrow> int" where
  "index_t_of_int64 n = (n + 2147483648) mod 4294967296 - 2147483648"

text \<open>
  \<open>get_derivative_wrt_mean\<close>. The constructor of \<^verbatim>\<open>SGVector\<close> is not part of the
  file: \<open>SGVector_new len\<close> says whether it throws for the length \<open>len\<close> (\<open>Some\<close> the
  exception) or gives the vector (\<open>None\<close>). The loop and the test for one element read
  \<^verbatim>\<open>result.vlen\<close>, the narrowed number; the loop writes the entries
  \<open>0 \<dots> vlen - 1\<close>, none when \<open>vlen\<close> is not positive.
\<close>

definition get_derivative_wrt_mean ::
  "(int \<Rightarrow> error option) \<Rightarrow> state \<Rightarrow> TParameter option \<Rightarrow> error + vec" where
  "get_derivative_wrt_mean SGVector_new s p =
     (case p of
        None \<Rightarrow> Inl (ShogunException ''Param not set'')
      | Some param \<Rightarrow>
          let vlen = index_t_of_int64 (get_num_elements param)
          in (case SGVector_new vlen of
               Some e \<Rightarrow> Inl e
             | None \<Rightarrow>
                 Inr (map (\<lambda>i.
                   let dmu = (if vlen = 1
                              then get_parameter_derivative (m_mean s) (m_features s) param (- 1)
                              else get_parameter_derivative (m_mean s) (m_features s) param
                                     (int i))
                   in - dot (m_alpha s) dmu
                      - dot (m_dfhat s)
                          (vec_sub dmu
                             (mat_vec (mat_scale (m_ktrtr s) (scale2 s)) (mat_vec (m_Z s) dmu))))
                   [0..<nat vlen])))"

subsection \<open>Concrete collaborators, to run the code\<close>

text \<open>
  The decompositions in exact arithmetic: the determinant and the inverse by cofactors,
  the upper Cholesky factor row by row, and the solves through the inverse.
\<close>

definition minor_mat :: "nat \<Rightarrow> nat \<Rightarrow> mat \<Rightarrow> mat" where
  "minor_mat i j M = drop_col j (take i M @ drop (Suc i) M)"

definition inverse_mat :: "mat \<Rightarrow> mat" where
  "inverse_mat M =
     (let n = num_rows M; d = determinant M
      in map (\<lambda>i. map (\<lambda>j. (if even (i + j) then 1 else - 1)
                             * determinant_n (n - 1) (minor_mat j i M) / d) [0..<n]) [0..<n])"

definition mat_mul :: "mat \<Rightarrow> mat \<Rightarrow> mat" where
  "mat_mul A B = map (\<lambda>row. vec_mat row B) A"

definition cholesky_row :: "mat \<Rightarrow> mat \<Rightarrow> nat \<Rightarrow> vec" where
  "cholesky_row A U i =
     (let d = sqrt (A ! i ! i - sum_list (map (\<lambda>u. u ! i * u ! i) U))
      in map (\<lambda>j. if j < i then 0
                  else if j = i then d
                  else (A ! i ! j - sum_list (map (\<lambda>u. u ! i * u ! j) U)) / d)
           [0..<num_cols A])"

definition cholesky_upper :: "mat \<Rightarrow> mat" where
  "cholesky_upper A = fold (\<lambda>i U. U @ [cholesky_row A U i]) [0..<num_rows A] []"

definition triangularView_Upper :: "mat \<Rightarrow> mat" where
  "triangularView_Upper M =
     map (\<lambda>i. map (\<lambda>j. if i \<le> j then M ! i ! j else 0) [0..<num_cols M]) [0..<num_rows M]"

definition exact_eigen :: eigen where
  "exact_eigen =
     \<lparr>lu_determinant = determinant,
      lu_inverse = inverse_mat,
      llt_matrixU = cholesky_upper,
      llt_solve = (\<lambda>M v. mat_vec (inverse_mat M) v),
      upper_solve = (\<lambda>U B. mat_mul (inverse_mat (triangularView_Upper U)) B),
      upper_adjoint_solve = (\<lambda>U B. mat_mul (inverse_mat (transpose (triangularView_Upper U))) B)\<rparr>"

text \<open>A Gaussian likelihood with unit variance.\<close>

definition gaussian_likelihood :: likelihood_model where
  "gaussian_likelihood =
     \<lparr>get_model_type = LT_OTHER,
      get_degrees_freedom = 0,
      get_log_probability_f = (\<lambda>y f. map2 (\<lambda>y f. - ((y - f) ^ 2) / 2 - ln (2 * pi) / 2) y f),
      get_log_probability_derivative_f = (\<lambda>y f i.
         if i = 1 then map2 (\<lambda>y f. y - f) y f
         else if i = 2 then map2 (\<lambda>y f. - 1) y f
         else map2 (\<lambda>y f. 0) y f)\<rparr>"

text \<open>Student's t likelihood with one degree of freedom and unit scale:
  \<open>log p(y | f) = - ln \<pi> - ln (1 + (y - f)\<^sup>2)\<close>.\<close>

definition students_t_likelihood :: likelihood_model where
  "students_t_likelihood =
     \<lparr>get_model_type = LT_STUDENTST,
      get_degrees_freedom = 1,
      get_log_probability_f = (\<lambda>y f. map2 (\<lambda>y f. - ln pi - ln (1 + (y - f) ^ 2)) y f),
      get_log_probability_derivative_f = (\<lambda>y f i.
         if i = 1 then map2 (\<lambda>y f. 2 * (y - f) / (1 + (y - f) ^ 2)) y f
         else if i = 2 then map2 (\<lambda>y f. 2 * ((y - f) ^ 2 - 1) / (1 + (y - f) ^ 2) ^ 2) y f
         else map2 (\<lambda>y f. 4 * (y - f) * ((y - f) ^ 2 - 3) / (1 + (y - f) ^ 2) ^ 3) y f)\<rparr>"

text \<open>The zero mean function; it has no parameter.\<close>

definition zero_mean :: mean_function where
  "zero_mean =
     \<lparr>get_mean_vector = (\<lambda>X. replicate (length X) 0),
      get_parameter_derivative = (\<lambda>X param i. replicate (length X) 0)\<rparr>"

text \<open>
  Modelled from the spec: the bounded line search \<^verbatim>\<open>local_min(a, b, t, f, x)\<close> of
  \<^verbatim>\<open>brent.h\<close>, which line 259 calls and which is not part of the file. It is Brent's
  derivative-free minimizer over the closed interval \<open>[a, b]\<close> with the absolute tolerance
  \<open>t\<close>: the first probe is at the golden section \<open>a + c * (b - a)\<close>, \<open>c = (3 - \<surd>5) / 2\<close>;
  each further step probes a point of parabolic interpolation or of golden section, never
  closer than the tolerance to the best point, and narrows the interval; the search ends
  when the best point is within twice the tolerance of both ends, and returns the best
  point and its value. The loop has no bound of its own: the model makes at most \<open>n\<close>
  steps.
\<close>

record brent_state =
  sa :: real
  sb :: real
  bx :: real
  bw :: real
  bv :: real
  be :: real
  bd :: real
  bfx :: real
  bfw :: real
  bfv :: real
  probes :: "real list"

definition brent_c :: real where
  "brent_c = 1 / 2 * (3 - sqrt 5)"

definition brent_eps :: real where
  "brent_eps = sqrt (1 / 2 ^ 52)"

definition brent_tol :: "real \<Rightarrow> brent_state \<Rightarrow> real" where
  "brent_tol t B = brent_eps * \<bar>bx B\<bar> + t"

definition brent_stop :: "real \<Rightarrow> brent_state \<Rightarrow> bool" where
  "brent_stop t B \<longleftrightarrow>
     \<bar>bx B - 1 / 2 * (sa B + sb B)\<bar> \<le> 2 * brent_tol t B - 1 / 2 * (sb B - sa B)"

definition brent_step_d :: "real \<Rightarrow> brent_state \<Rightarrow> real \<times> real" where
  "brent_step_d t B =
     (let m = 1 / 2 * (sa B + sb B); tol = brent_tol t B; t2 = 2 * tol;
          x = bx B; w = bw B; v = bv B;
          (p, q, r, e) =
            (if tol < \<bar>be B\<bar> then
               let r = (x - w) * (bfx B - bfv B);
                   q = (x - v) * (bfx B - bfw B);
                   p = (x - v) * q - (x - w) * r;
                   q = 2 * (q - r);
                   p = (if 0 < q then - p else p)
               in (p, \<bar>q\<bar>, be B, bd B)
             else (0, 0, 0, be B))
      in if \<bar>p\<bar> < \<bar>1 / 2 * q * r\<bar> \<and> q * (sa B - x) < p \<and> p < q * (sb B - x) then
           let d = p / q; u = x + d
           in (if u - sa B < t2 \<or> sb B - u < t2
               then (if x < m then tol else - tol) else d, e)
         else
           let e = (if x < m then sb B - x else sa B - x)
           in (brent_c * e, e))"

definition brent_body :: "real \<Rightarrow> (real \<Rightarrow> real) \<Rightarrow> brent_state \<Rightarrow> brent_state" where
  "brent_body t f B =
     (let tol = brent_tol t B; x = bx B;
          (d, e) = brent_step_d t B;
          u = (if tol \<le> \<bar>d\<bar> then x + d else if 0 < d then x + tol else x - tol);
          fu = f u;
          B1 = B\<lparr>be := e, bd := d, probes := probes B @ [u]\<rparr>
      in if fu \<le> bfx B then
           (if u < x then B1\<lparr>sb := x\<rparr> else B1\<lparr>sa := x\<rparr>)
             \<lparr>bv := bw B, bfv := bfw B, bw := x, bfw := bfx B, bx := u, bfx := fu\<rparr>
         else
           let B2 = (if u < x then B1\<lparr>sa := u\<rparr> else B1\<lparr>sb := u\<rparr>)
           in if fu \<le> bfw B \<or> bw B = x then
                B2\<lparr>bv := bw B, bfv := bfw B, bw := u, bfw := fu\<rparr>
              else if fu \<le> bfv B \<or> bv B = x \<or> bv B = bw B then
                B2\<lparr>bv := u, bfv := fu\<rparr>
              else B2)"

fun brent_loop :: "nat \<Rightarrow> real \<Rightarrow> (real \<Rightarrow> real) \<Rightarrow> brent_state \<Rightarrow> brent_state" where
  "brent_loop 0 t f B = B"
| "brent_loop (Suc n) t f B =
     (if brent_stop t B then B else brent_loop n t f (brent_body t f B))"

definition local_min_bounded :: "nat \<Rightarrow> line_search" where
  "local_min_bounded n a b t f =
     (let x = a + brent_c * (b - a);
          B = brent_loop n t f
                \<lparr>sa = a, sb = b, bx = x, bw = x, bv = x, be = 0, bd = 0,
                 bfx = f x, bfw = f x, bfv = f x, probes = [x]\<rparr>
      in \<lparr>evaluations = probes B, x_min = bx B, fx = bfx B\<rparr>)"

text \<open>The Newton optimizer with a coarse line search: the tolerance of the line search
  is 20, on the interval \<open>[0, 10]\<close>; the tolerance and the cap of the Newton loop are the
  defaults.\<close>

definition coarse_search :: newton_optimizer where
  "coarse_search = init\<lparr>m_opt_tolerance := 20\<rparr>"

text \<open>A line search that evaluates the objective once, at the fraction \<open>c\<close> of the
  interval, and returns that value.\<close>

definition single_probe :: "real \<Rightarrow> line_search" where
  "single_probe c a b t f =
     \<lparr>evaluations = [a + c * (b - a)], x_min = a + c * (b - a), fx = f (a + c * (b - a))\<rparr>"

text \<open>A first-order minimizer that makes one step of gradient descent with unit rate.\<close>

definition gradient_step :: first_order_minimizer where
  "gradient_step cost gradient a = vec_sub a (gradient a)"

text \<open>A constant mean function \<open>m(x) = c\<close> with the parameter \<open>c\<close>.\<close>

definition constant_mean :: "real \<Rightarrow> mean_function" where
  "constant_mean c =
     \<lparr>get_mean_vector = (\<lambda>X. replicate (length X) c),
      get_parameter_derivative = (\<lambda>X param i. replicate (length X) 1)\<rparr>"

text \<open>An \<^verbatim>\<open>SGVector\<close> constructor that never throws.\<close>

definition SGVector_ok :: "int \<Rightarrow> error option" where
  "SGVector_ok len = None"

text \<open>One training point, kernel matrix \<open>(k)\<close>, zero mean, \<open>log_scale = 0\<close>, label \<open>y\<close>,
  dual variable \<open>a\<close> and function value \<open>f\<close>; nothing else computed yet.\<close>

definition one_point :: "likelihood_model \<Rightarrow> real \<Rightarrow> real \<Rightarrow> vec \<Rightarrow> vec \<Rightarrow> state" where
  "one_point lik k y a f =
     \<lparr>m_alpha = a, m_mu = f, m_mean_f = [0], m_ktrtr = [[k]], m_log_scale = 0,
      m_W = [], m_sW = [], m_dlp = [], m_d2lp = [], m_d3lp = [],
      m_L = [], m_Z = [], m_g = [], m_dfhat = [], m_Psi = 0,
      m_labels = [y], m_features = [[0]], m_model = lik, m_mean = zero_mean,
      m_minimizer = Newton init\<rparr>"

text \<open>A fresh model of one point with label 1 and a Gaussian likelihood, after
  \<open>update_init\<close>: alpha = 0, \<open>f\<close> = 0.\<close>

definition gaussian_point :: state where
  "gaussian_point = update_init (one_point gaussian_likelihood 1 1 [] [])"

text \<open>
  One point with label 18/5 and Student's t likelihood, at alpha = \<open>f\<close> = 3/5, after
  \<open>update_chol\<close>. Here \<open>y - f = 3\<close>, so \<open>W = - 4/25\<close> is negative, and
  alpha equals the first derivative of the log likelihood: the gradient of \<open>Psi\<close>
  vanishes.
\<close>

definition outlier_mode :: state where
  "outlier_mode = update_chol exact_eigen (one_point students_t_likelihood 1 (18 / 5) [3 / 5] [3 / 5])"

text \<open>
  The negative log marginal likelihood of the indefinite branch as the specification
  words it: with the determinant of \<open>A = I + K * scale\<^sup>2 * diag(W)\<close>.
\<close>

definition nlml_indefinite_spec :: "eigen \<Rightarrow> state \<Rightarrow> real" where
  "nlml_indefinite_spec E s =
     dot (m_alpha s) (vec_sub (m_mu s) (get_mean_vector (m_mean s) (m_features s))) / 2
     - sum_list (get_log_probability_f (m_model s) (m_labels s) (m_mu s))
     + ln (lu_determinant E (lu_matrix s (m_W s))) / 2"

text \<open>The same point at the start of \<open>minimize\<close>: \<open>W\<close> and \<open>dlp\<close> are computed, no
  iteration is made yet.\<close>

definition outlier_start :: state where
  "outlier_start = minimize_prepare (one_point students_t_likelihood 1 (18 / 5) [3 / 5] [3 / 5])"

text \<open>The Newton optimizer with a cap of one iteration.\<close>

definition one_iteration :: newton_optimizer where
  "one_iteration = init\<lparr>m_iter := 1\<rparr>"

text \<open>The Gaussian point with a warm start at alpha = 1/2, before \<open>update_init\<close>.\<close>

definition warm_point :: state where
  "warm_point = one_point gaussian_likelihood 1 1 [1 / 2] []"

text \<open>The Gaussian point with the gradient step as its minimizer, and with the Newton
  optimizer capped at one iteration.\<close>

definition first_order_point :: state where
  "first_order_point = gaussian_point\<lparr>m_minimizer := FirstOrder gradient_step\<rparr>"

definition newton_point :: state where
  "newton_point = gaussian_point\<lparr>m_minimizer := Newton one_iteration\<rparr>"

text \<open>A parameter whose number of elements, \<open>2\<^sup>3\<^sup>2 + 1\<close>, is narrowed to 1, and the
  Student's t mode with a constant mean function.\<close>

definition mean_parameter :: TParameter where
  "mean_parameter = \<lparr>m_name = ''mean'', get_num_elements = 4294967297\<rparr>"

definition outlier_constant_mean :: state where
  "outlier_constant_mean = outlier_mode\<lparr>m_mean := constant_mean 0\<rparr>"

section \<open>Properties\<close>

declare minimize_loop.simps [simp del] loop_tests.simps [simp del]

text \<open>The definitions unfolded to run the code on the concrete states.\<close>

lemmas run_defs =
  one_point_def gaussian_likelihood_def students_t_likelihood_def zero_mean_def
  update_init_def minimize_prepare_def
  minimize_iteration_def regularize_def compute_sW_def newton_dalpha_def brent_step_def
  PsiLine_call_def single_probe_def exact_eigen_def init_def llt_matrix_def lu_matrix_def
  inverse_mat_def determinant_def minor_mat_def drop_col_def cholesky_upper_def cholesky_row_def
  num_rows_def num_cols_def Identity_def outer_def
  vec_add_def vec_sub_def vec_scale_def scale_vec_def dot_def cwiseProduct_def cwiseSqrt_def
  mat_vec_def mat_scale_def mat_add_def mat_cwiseProduct_def mat_mul_diag_def
  zero_vec_def scale2_def Let_def

lemma gaussian_point_fields:
  "m_alpha gaussian_point = [0]" "m_mu gaussian_point = [0]" "m_mean_f gaussian_point = [0]"
  "m_ktrtr gaussian_point = [[1]]" "m_log_scale gaussian_point = 0"
  "m_labels gaussian_point = [1]" "m_model gaussian_point = gaussian_likelihood"
  "m_Psi gaussian_point = 1 / 2 + ln (2 * pi) / 2"
  by (simp_all add: gaussian_point_def run_defs)

text \<open>The exact decompositions on matrices of two rows.\<close>

lemma exact_inverse_2x2:
  "mat_mul (inverse_mat [[2, 1], [1, 3]]) [[2, 1], [1, 3]] = [[1, 0], [0, 1]]"
  by (simp add: mat_mul_def vec_mat_def inverse_mat_def determinant_def minor_mat_def
      drop_col_def num_rows_def num_cols_def dot_def Let_def upt_rec numeral_2_eq_2)

lemma exact_cholesky_2x2: "cholesky_upper [[4, 2], [2, 5]] = [[2, 1], [0, 2]]"
  by (simp add: cholesky_upper_def cholesky_row_def num_rows_def num_cols_def Let_def upt_rec
      numeral_2_eq_2)

subsection \<open>Vectors of zeros\<close>

lemma dot_zero_left: "dot (replicate n 0) v = 0"
proof (induction n arbitrary: v)
  case 0
  then show ?case by (simp add: dot_def)
next
  case (Suc n)
  then show ?case by (cases v) (simp_all add: dot_def)
qed

lemma dot_zero_right: "dot v (replicate n 0) = 0"
proof (induction n arbitrary: v)
  case 0
  then show ?case by (simp add: dot_def)
next
  case (Suc n)
  then show ?case by (cases v) (simp_all add: dot_def)
qed

lemma vec_add_zero_left: "length m \<le> n \<Longrightarrow> vec_add (replicate n 0) m = m"
proof (induction m arbitrary: n)
  case Nil
  then show ?case by (simp add: vec_add_def)
next
  case (Cons a m)
  then show ?case by (cases n) (simp_all add: vec_add_def)
qed

lemma mat_vec_zero: "mat_vec M (replicate n 0) = replicate (length M) 0"
  by (induction M) (simp_all add: mat_vec_def dot_zero_right)

lemma kernel_times_zero_plus_mean:
  assumes "length m = num_rows K"
  shows "vec_add (mat_vec (mat_scale K c) (replicate n 0)) m = m"
proof -
  have "mat_vec (mat_scale K c) (replicate n 0) = replicate (length K) 0"
    using mat_vec_zero [of "mat_scale K c" n] by (simp add: mat_scale_def)
  with assms show ?thesis
    by (simp add: vec_add_zero_left num_rows_def)
qed

subsection \<open>update_init\<close>

text \<open>
  Claim C7. When \<open>update_init\<close> leaves alpha a vector of zeros, it leaves \<open>f\<close> equal to the
  prior mean vector and \<open>Psi\<close> equal to minus the sum of the log probabilities at the
  mean; an alpha whose length differs from the number of labels is always replaced by
  zeros. The kernel matrix has one row for each entry of the mean vector.
\<close>

theorem update_init_zero_alpha:
  assumes dims: "length (get_mean_vector (m_mean s) (m_features s)) = num_rows (m_ktrtr s)"
  shows "(length (m_alpha s) \<noteq> length (m_labels s) \<longrightarrow>
            m_alpha (update_init s) = zero_vec (length (m_labels s)))
       \<and> (m_alpha (update_init s) = zero_vec n \<longrightarrow>
            m_mu (update_init s) = get_mean_vector (m_mean s) (m_features s)
          \<and> m_Psi (update_init s) =
              - sum_list (get_log_probability_f (m_model s) (m_labels s)
                            (get_mean_vector (m_mean s) (m_features s))))"
proof (cases "length (m_alpha s) \<noteq> length (m_labels s)")
  case True
  then show ?thesis by (simp add: update_init_def Let_def)
next
  case False
  define mean_f where "mean_f = get_mean_vector (m_mean s) (m_features s)"
  define mu where
    "mu = vec_add (mat_vec (mat_scale (m_ktrtr s) (scale2 s)) (m_alpha s)) mean_f"
  define Psi_New where
    "Psi_New = dot (m_alpha s) (vec_sub mu mean_f) / 2
               - sum_list (get_log_probability_f (m_model s) (m_labels s) mu)"
  define Psi_Def where
    "Psi_Def = - sum_list (get_log_probability_f (m_model s) (m_labels s) mean_f)"
  show ?thesis
  proof (cases "Psi_Def < Psi_New")
    case True
    with False show ?thesis
      by (simp add: update_init_def Let_def mean_f_def mu_def Psi_New_def Psi_Def_def
          scale2_def)
  next
    case keep: False
    with False have a: "m_alpha (update_init s) = m_alpha s"
      and m: "m_mu (update_init s) = mu" and p: "m_Psi (update_init s) = Psi_New"
      by (simp_all add: update_init_def Let_def mean_f_def mu_def Psi_New_def Psi_Def_def
          scale2_def)
    have "mu = mean_f \<and> Psi_New = Psi_Def" if z: "m_alpha s = zero_vec n"
    proof -
      have mu_eq: "mu = mean_f"
        using dims kernel_times_zero_plus_mean [of mean_f "m_ktrtr s" "scale2 s" n]
        by (simp add: mu_def z zero_vec_def mean_f_def)
      have "dot (m_alpha s) (vec_sub mu mean_f) = 0"
        by (simp add: z zero_vec_def dot_zero_left)
      with mu_eq show ?thesis
        by (simp add: Psi_New_def Psi_Def_def)
    qed
    with False a m p show ?thesis
      by (simp add: mean_f_def Psi_Def_def)
  qed
qed

theorem update_init_zero_alpha_witness:
  "length (get_mean_vector (m_mean (one_point gaussian_likelihood 1 1 [] []))
             (m_features (one_point gaussian_likelihood 1 1 [] [])))
     = num_rows (m_ktrtr (one_point gaussian_likelihood 1 1 [] []))
   \<and> length (m_alpha (one_point gaussian_likelihood 1 1 [] []))
       \<noteq> length (m_labels (one_point gaussian_likelihood 1 1 [] []))
   \<and> m_alpha (update_init (one_point gaussian_likelihood 1 1 [] [])) = zero_vec 1
   \<and> m_mu (update_init (one_point gaussian_likelihood 1 1 [] [])) = [0]
   \<and> m_Psi (update_init (one_point gaussian_likelihood 1 1 [] [])) = 1 / 2 + ln (2 * pi) / 2"
proof -
  have dims: "length (get_mean_vector (m_mean (one_point gaussian_likelihood 1 1 [] []))
                        (m_features (one_point gaussian_likelihood 1 1 [] [])))
                = num_rows (m_ktrtr (one_point gaussian_likelihood 1 1 [] []))"
    by (simp add: one_point_def zero_mean_def num_rows_def)
  show ?thesis
    using update_init_zero_alpha [OF dims, of 1]
    by (simp add: one_point_def zero_mean_def num_rows_def gaussian_likelihood_def)
qed

text \<open>
  Claim C10. When the length of alpha equals the number of labels, \<open>update_init\<close>
  compares the objective \<open>Psi(alpha)\<close> of the warm start with the objective \<open>Psi_Def\<close> at
  alpha = 0; if \<open>Psi_Def\<close> is smaller, alpha becomes zero and \<open>f\<close> the prior mean, otherwise
  both are kept; \<open>m_Psi\<close> is the minimum of the two objectives.
\<close>

theorem update_init_warm_start:
  assumes len: "length (m_alpha s) = length (m_labels s)"
  defines "mean_f \<equiv> get_mean_vector (m_mean s) (m_features s)"
  defines "f \<equiv> vec_add (mat_vec (mat_scale (m_ktrtr s) (exp (m_log_scale s * 2))) (m_alpha s))
                 mean_f"
  defines "Psi_warm \<equiv> dot (m_alpha s) (vec_sub f mean_f) / 2
                       - sum_list (get_log_probability_f (m_model s) (m_labels s) f)"
  defines "Psi_Def \<equiv> - sum_list (get_log_probability_f (m_model s) (m_labels s) mean_f)"
  shows "m_Psi (update_init s) = min Psi_warm Psi_Def
       \<and> (m_alpha (update_init s), m_mu (update_init s)) =
           (if Psi_Def < Psi_warm then (zero_vec (length (m_alpha s)), mean_f)
            else (m_alpha s, f))"
  using len
  by (simp add: update_init_def Let_def mean_f_def f_def Psi_warm_def Psi_Def_def scale2_def
      min_def)

theorem update_init_warm_start_witness:
  "length (m_alpha (one_point gaussian_likelihood 1 0 [2] []))
     = length (m_labels (one_point gaussian_likelihood 1 0 [2] []))
   \<and> m_Psi (update_init (one_point gaussian_likelihood 1 0 [2] [])) = ln (2 * pi) / 2
   \<and> m_alpha (update_init (one_point gaussian_likelihood 1 0 [2] [])) = [0]
   \<and> m_mu (update_init (one_point gaussian_likelihood 1 0 [2] [])) = [0]"
proof -
  have len: "length (m_alpha (one_point gaussian_likelihood 1 0 [2] []))
               = length (m_labels (one_point gaussian_likelihood 1 0 [2] []))"
    by (simp add: one_point_def)
  show ?thesis
    using update_init_warm_start [OF len]
    by (simp add: one_point_def zero_mean_def gaussian_likelihood_def zero_vec_def
        vec_add_def vec_sub_def mat_vec_def mat_scale_def vec_scale_def dot_def)
qed

subsection \<open>Scalars move through the products\<close>

lemma dot_scale_left: "dot (vec_scale r c) a = dot r a * c"
proof (induction r arbitrary: a)
  case Nil
  then show ?case by (simp add: dot_def vec_scale_def)
next
  case (Cons x r)
  then show ?case by (cases a) (simp_all add: dot_def vec_scale_def algebra_simps)
qed

lemma dot_scale_right: "dot r (vec_scale a c) = dot r a * c"
proof (induction r arbitrary: a)
  case Nil
  then show ?case by (simp add: dot_def vec_scale_def)
next
  case (Cons x r)
  then show ?case by (cases a) (simp_all add: dot_def vec_scale_def algebra_simps)
qed

lemma mat_vec_scale_matrix: "mat_vec (mat_scale K c) a = vec_scale (mat_vec K a) c"
  by (simp add: mat_vec_def mat_scale_def vec_scale_def dot_scale_left [unfolded vec_scale_def])

lemma mat_vec_scale_vector: "mat_vec K (vec_scale a c) = mat_vec (mat_scale K c) a"
  by (simp add: mat_vec_def mat_scale_def dot_scale_left dot_scale_right)

lemma vec_add_commute: "vec_add a b = vec_add b a"
proof (induction a arbitrary: b)
  case Nil
  then show ?case by (simp add: vec_add_def)
next
  case (Cons x a)
  then show ?case by (cases b) (simp_all add: vec_add_def)
qed

lemma mat_add_commute: "mat_add A B = mat_add B A"
proof (induction A arbitrary: B)
  case Nil
  then show ?case by (simp add: mat_add_def)
next
  case (Cons x A)
  then show ?case by (cases B) (simp_all add: mat_add_def vec_add_commute)
qed

lemma minCoeff_le: "w \<in> set W \<Longrightarrow> minCoeff W \<le> w"
proof (cases W)
  case Nil
  then show "w \<in> set W \<Longrightarrow> minCoeff W \<le> w" by simp
next
  case (Cons x xs)
  assume "w \<in> set W"
  moreover have "minCoeff W = Min (set W)"
    unfolding Cons minCoeff.simps by (rule Min.set_eq_fold [symmetric])
  ultimately show "minCoeff W \<le> w" by simp
qed

subsection \<open>The cost function\<close>

text \<open>
  Claim C8. With its target set, \<open>get_cost\<close> returns
  \<open>Psi = alpha \<cdot> (f - mean) / 2 - \<Sum> log p(y | f)\<close> for \<open>f = K * scale\<^sup>2 * alpha + mean\<close>, and
  \<open>get_gradient\<close>, on a gradient vector of the length of alpha, returns and stores
  \<open>K * scale\<^sup>2 * (alpha - dlp(f))\<close> for the same \<open>f\<close>.
\<close>

theorem cost_function_adapter:
  assumes target_set: "m_obj c = Some s"
    and len: "length (m_derivatives c) = length (m_alpha s)"
  defines "f \<equiv> vec_add (mat_vec (mat_scale (m_ktrtr s) (exp (m_log_scale s * 2))) (m_alpha s))
                 (m_mean_f s)"
  defines "g \<equiv> mat_vec (mat_scale (m_ktrtr s) (exp (m_log_scale s * 2)))
                 (vec_sub (m_alpha s)
                    (get_log_probability_derivative_f (m_model s) (m_labels s) f 1))"
  shows "get_cost c =
           Inr (dot (m_alpha s) (vec_sub f (m_mean_f s)) / 2
                - sum_list (get_log_probability_f (m_model s) (m_labels s) f))
       \<and> get_gradient c = Inr (g, c\<lparr>m_derivatives := g\<rparr>)"
  using target_set len
  by (simp add: get_cost_def get_gradient_def get_gradient_wrt_alpha_def gradient_wrt_alpha_def
      get_psi_wrt_alpha_def Let_def f_def g_def scale2_def mat_vec_scale_vector)

theorem cost_function_adapter_witness:
  "m_obj \<lparr>m_obj = Some gaussian_point, m_derivatives = [0]\<rparr> = Some gaussian_point
   \<and> length (m_derivatives \<lparr>m_obj = Some gaussian_point, m_derivatives = [0]\<rparr>)
       = length (m_alpha gaussian_point)
   \<and> get_cost \<lparr>m_obj = Some gaussian_point, m_derivatives = [0]\<rparr>
       = Inr (1 / 2 + ln (2 * pi) / 2)
   \<and> map_sum id fst (get_gradient \<lparr>m_obj = Some gaussian_point, m_derivatives = [0]\<rparr>)
       = Inr [- 1]"
proof -
  have target_set:
    "m_obj \<lparr>m_obj = Some gaussian_point, m_derivatives = [0]\<rparr> = Some gaussian_point"
    and len: "length (m_derivatives \<lparr>m_obj = Some gaussian_point, m_derivatives = [0]\<rparr>)
       = length (m_alpha gaussian_point)"
    by (simp_all add: gaussian_point_fields)
  show ?thesis
    using cost_function_adapter [OF target_set len]
    by (simp add: gaussian_point_fields run_defs)
qed

subsection \<open>The derivatives\<close>

text \<open>
  Claim C9. \<open>get_derivative_wrt_inference_method\<close> leaves the state as it is; for the
  name \<open>log_scale\<close> it returns a vector of one entry, and for every other name it
  throws, whatever the state.
\<close>

theorem derivative_wrt_inference_method_name:
  "snd (get_derivative_wrt_inference_method s param) = s
   \<and> (if m_name param = ''log_scale''
      then \<exists>v. fst (get_derivative_wrt_inference_method s param) = Inr [v]
      else fst (get_derivative_wrt_inference_method s param) =
             Inl (ShogunException
               ''Can't compute derivative of the nagative log marginal likelihood wrt %s.%s parameter''))"
  by (simp add: get_derivative_wrt_inference_method_def Let_def)

lemma sqrt_4_25: "sqrt (4 / 25) = 2 / 5"
  by (rule real_sqrt_unique) (simp_all add: power2_eq_square)

lemma index_t_of_int64_examples:
  "index_t_of_int64 3 = 3" "index_t_of_int64 4294967297 = 1"
  "index_t_of_int64 2147483648 = - 2147483648"
  by (simp_all add: index_t_of_int64_def)

text \<open>
  Claim C6. \<open>update_deriv\<close> computes \<open>Z\<close> and \<open>g\<close> from the factor of the mode (in the
  indefinite branch \<open>Z = - L\<close> and \<open>g\<close> half the row sums of \<open>A\<^sup>-\<^sup>1 \<odot> K * scale\<^sup>2\<close>, in the other
  branch through the triangular solves against \<open>L\<close>) and stores \<open>dfhat = g \<odot> d3lp\<close>. With
  the result vector obtained, \<open>get_derivative_wrt_mean\<close> then returns, for every index
  \<open>i\<close> below the narrowed number of elements of the parameter and with \<open>dmean\<close> the
  derivative of the mean vector,
  \<open>- alpha \<cdot> dmean - dfhat \<cdot> (dmean - K * scale\<^sup>2 * (Z * dmean))\<close> with this \<open>dfhat\<close> and \<open>Z\<close>.
\<close>

theorem derivative_wrt_mean_formula:
  fixes E s param SGVector_new
  defines "t \<equiv> update_deriv E s"
  defines "K2 \<equiv> mat_scale (m_ktrtr s) (exp (m_log_scale s * 2))"
  defines "A \<equiv> mat_add (Identity (num_rows (m_ktrtr s)) (num_cols (m_ktrtr s)))
                 (mat_mul_diag K2 (m_W s))"
  defines "C \<equiv> upper_adjoint_solve E (m_L s)
                 (mat_scale (diag_mul_mat (m_sW s) (m_ktrtr s)) (exp (m_log_scale s * 2)))"
  defines "Z \<equiv> (if minCoeff (m_W s) < 0 then mat_neg (m_L s)
                 else diag_mul_mat (m_sW s)
                        (upper_solve E (m_L s)
                           (upper_adjoint_solve E (m_L s) (asDiagonal (m_sW s)))))"
  defines "g \<equiv> (if minCoeff (m_W s) < 0
                 then vec_div (rowwise_sum (mat_cwiseProduct (lu_inverse E A) K2)) 2
                 else vec_div (vec_sub (vec_scale (diagonal (m_ktrtr s))
                                          (exp (m_log_scale s * 2)))
                                 (colwise_sum (mat_cwiseProduct C C))) 2)"
  defines "dfhat \<equiv> cwiseProduct g (m_d3lp s)"
  defines "vlen \<equiv> index_t_of_int64 (get_num_elements param)"
  defines "dmean \<equiv> \<lambda>i. if vlen = 1
       then get_parameter_derivative (m_mean s) (m_features s) param (- 1)
       else get_parameter_derivative (m_mean s) (m_features s) param (int i)"
  shows "m_Z t = Z \<and> m_g t = g \<and> m_dfhat t = dfhat
       \<and> (SGVector_new vlen = None \<longrightarrow>
            get_derivative_wrt_mean SGVector_new t (Some param) =
              Inr (map (\<lambda>i. - dot (m_alpha s) (dmean i)
                            - dot dfhat
                                (vec_sub (dmean i) (mat_vec K2 (mat_vec Z (dmean i)))))
                     [0..<nat vlen]))"
proof -
  have Z: "m_Z t = Z" and g: "m_g t = g" and dfhat: "m_dfhat t = dfhat"
    by (cases "minCoeff (m_W s) < 0";
        simp add: t_def Z_def g_def dfhat_def C_def A_def K2_def update_deriv_def Let_def
          scale2_def lu_matrix_def)+
  have same: "m_alpha t = m_alpha s" "m_ktrtr t = m_ktrtr s" "m_log_scale t = m_log_scale s"
    "m_mean t = m_mean s" "m_features t = m_features s"
    by (simp_all add: t_def update_deriv_def Let_def split: prod.splits)
  have "get_derivative_wrt_mean SGVector_new t (Some param) =
              Inr (map (\<lambda>i. - dot (m_alpha s) (dmean i)
                            - dot dfhat
                                (vec_sub (dmean i) (mat_vec K2 (mat_vec Z (dmean i)))))
                     [0..<nat vlen])"
    if "SGVector_new vlen = None"
    using that
    by (simp add: get_derivative_wrt_mean_def Let_def vlen_def [symmetric] Z g dfhat same
        scale2_def K2_def dmean_def)
  with Z g dfhat show ?thesis by blast
qed

lemma ocm_fields:
  "m_W outlier_constant_mean = [- 4 / 25]" "m_sW outlier_constant_mean = [- 2 / 5]"
  "m_alpha outlier_constant_mean = [3 / 5]" 
  "m_ktrtr outlier_constant_mean = [[1]]" "m_log_scale outlier_constant_mean = 0"
  "m_d3lp outlier_constant_mean = [9 / 125]"
  "m_L outlier_constant_mean = [[4 / 21]]"
  "m_mean outlier_constant_mean = constant_mean 0"
  "m_features outlier_constant_mean = [[0]]"
  by (simp_all add: outlier_constant_mean_def outlier_mode_def update_chol_def run_defs power2_eq_square sqrt_4_25
    diag_mul_mat_def mat_neg_def power3_eq_cube)

theorem derivative_wrt_mean_formula_witness:
  "SGVector_ok (index_t_of_int64 (get_num_elements mean_parameter)) = None
   \<and> index_t_of_int64 (get_num_elements mean_parameter) = 1
   \<and> m_Z (update_deriv exact_eigen outlier_constant_mean) = [[- 4 / 21]]
   \<and> m_g (update_deriv exact_eigen outlier_constant_mean) = [25 / 42]
   \<and> m_dfhat (update_deriv exact_eigen outlier_constant_mean) = [3 / 70]
   \<and> get_derivative_wrt_mean SGVector_ok (update_deriv exact_eigen outlier_constant_mean)
        (Some mean_parameter) = Inr [- 319 / 490]"
proof -
  have ok: "SGVector_ok (index_t_of_int64 (get_num_elements mean_parameter)) = None"
    by (simp add: SGVector_ok_def)
  have one: "index_t_of_int64 (get_num_elements mean_parameter) = 1"
    by (simp add: mean_parameter_def index_t_of_int64_def)
  have neg: "minCoeff (m_W outlier_constant_mean) < 0"
    by (simp add: ocm_fields)
  show ?thesis
    using derivative_wrt_mean_formula [of exact_eigen outlier_constant_mean SGVector_ok mean_parameter] ok
    by (simp add: one neg ocm_fields run_defs constant_mean_def mat_neg_def vec_div_def rowwise_sum_def SGVector_ok_def)
qed

subsection \<open>update_chol\<close>

text \<open>
  Claim C3. \<open>update_chol\<close> sets \<open>W = - d2lp\<close> and chooses the factor by the sign of the
  least entry of \<open>W\<close> alone. When the least entry is not negative, zero included, \<open>sW\<close> is
  the elementwise square root of \<open>W\<close> and \<open>L\<close> is the upper Cholesky factor of
  \<open>I + (sW * sW\<^sup>T) \<odot> (K * scale\<^sup>2)\<close>.
\<close>

theorem update_chol_psd_branch:
  fixes E s
  defines "W \<equiv> vec_scale
                 (get_log_probability_derivative_f (m_model s) (m_labels s) (m_mu s) 2) (- 1)"
  defines "I \<equiv> Identity (num_rows (m_ktrtr s)) (num_cols (m_ktrtr s))"
  defines "K2 \<equiv> mat_scale (m_ktrtr s) (exp (m_log_scale s * 2))"
  shows "m_W (update_chol E s) = W
       \<and> m_L (update_chol E s) =
           (if minCoeff W < 0
            then diag_mul_mat W (mat_neg (lu_inverse E (mat_add I (mat_mul_diag K2 W))))
            else llt_matrixU E (mat_add I
                   (mat_cwiseProduct (outer (m_sW (update_chol E s)) (m_sW (update_chol E s)))
                      K2)))
       \<and> (0 \<le> minCoeff W \<longrightarrow>
            m_sW (update_chol E s) = map sqrt W
          \<and> m_L (update_chol E s) =
              llt_matrixU E
                (mat_add I (mat_cwiseProduct (outer (map sqrt W) (map sqrt W)) K2)))"
proof -
  have sW: "m_sW (update_chol E s) = map sqrt W" if "0 \<le> minCoeff W"
  proof -
    have "0 \<le> w" if "w \<in> set W" for w
      using minCoeff_le [OF that] \<open>0 \<le> minCoeff W\<close> by simp
    then have "map (\<lambda>w. sqrt ((\<bar>w\<bar> + w) / 2) - sqrt ((\<bar>w\<bar> - w) / 2)) W = map sqrt W"
      by simp
    then show ?thesis
      by (simp add: update_chol_def Let_def W_def cwiseSqrt_def)
  qed
  have L: "m_L (update_chol E s) =
           (if minCoeff W < 0
            then diag_mul_mat W (mat_neg (lu_inverse E (mat_add I (mat_mul_diag K2 W))))
            else llt_matrixU E (mat_add I
                   (mat_cwiseProduct (outer (m_sW (update_chol E s)) (m_sW (update_chol E s)))
                      K2)))"
    unfolding mat_add_commute [of I "mat_cwiseProduct a b" for a b]
    by (simp add: update_chol_def Let_def W_def I_def K2_def lu_matrix_def llt_matrix_def
        scale2_def)
  have W: "m_W (update_chol E s) = W"
    by (simp add: update_chol_def Let_def W_def)
  from sW L W show ?thesis by auto
qed

text \<open>The boundary case: Student's t with \<open>y - f = 1\<close> has \<open>W = 0\<close>.\<close>

theorem update_chol_psd_branch_witness:
  "0 \<le> minCoeff (vec_scale (get_log_probability_derivative_f
        (m_model (one_point students_t_likelihood 1 1 [0] [0]))
        (m_labels (one_point students_t_likelihood 1 1 [0] [0]))
        (m_mu (one_point students_t_likelihood 1 1 [0] [0])) 2) (- 1))
   \<and> m_W (update_chol exact_eigen (one_point students_t_likelihood 1 1 [0] [0])) = [0]
   \<and> m_sW (update_chol exact_eigen (one_point students_t_likelihood 1 1 [0] [0])) = [0]
   \<and> m_L (update_chol exact_eigen (one_point students_t_likelihood 1 1 [0] [0])) = [[1]]"
proof -
  have h: "0 \<le> minCoeff (vec_scale (get_log_probability_derivative_f
        (m_model (one_point students_t_likelihood 1 1 [0] [0]))
        (m_labels (one_point students_t_likelihood 1 1 [0] [0]))
        (m_mu (one_point students_t_likelihood 1 1 [0] [0])) 2) (- 1))"
    by (simp add: run_defs)
  show ?thesis
    using h update_chol_psd_branch [of exact_eigen "one_point students_t_likelihood 1 1 [0] [0]"]
    by (simp add: run_defs)
qed

subsection \<open>The invariant between alpha and f\<close>

lemma minimize_Some: "\<exists>r. minimize E local_min opt (Some s) = Inr r"
  by (simp add: minimize_def Let_def)

text \<open>The line search, the Newton iteration and the loop leave the kernel matrix, the
  scale and the mean vector as they are.\<close>

lemma PsiLine_call_fields:
  "m_alpha (snd (PsiLine_call func x s))
     = vec_add (line_start_alpha func) (scale_vec x (line_dalpha func))"
  "m_mu (snd (PsiLine_call func x s))
     = vec_add (mat_vec (mat_scale (line_K func) (exp (line_log_scale func * 2)))
                  (vec_add (line_start_alpha func) (scale_vec x (line_dalpha func))))
         (m_mean_f s)"
  "m_ktrtr (snd (PsiLine_call func x s)) = m_ktrtr s"
  "m_log_scale (snd (PsiLine_call func x s)) = m_log_scale s"
  "m_mean_f (snd (PsiLine_call func x s)) = m_mean_f s"
  by (simp_all add: PsiLine_call_def Let_def mat_vec_scale_matrix)

lemma fold_PsiLine_keeps:
  "m_ktrtr (fold (\<lambda>x t. snd (PsiLine_call func x t)) xs s) = m_ktrtr s
   \<and> m_log_scale (fold (\<lambda>x t. snd (PsiLine_call func x t)) xs s) = m_log_scale s
   \<and> m_mean_f (fold (\<lambda>x t. snd (PsiLine_call func x t)) xs s) = m_mean_f s"
  by (induction xs arbitrary: s) (simp_all add: PsiLine_call_fields)

lemma minimize_iteration_keeps:
  "m_ktrtr (snd (minimize_iteration E local_min opt s)) = m_ktrtr s
   \<and> m_log_scale (snd (minimize_iteration E local_min opt s)) = m_log_scale s
   \<and> m_mean_f (snd (minimize_iteration E local_min opt s)) = m_mean_f s"
  by (simp add: minimize_iteration_def brent_step_def Let_def fold_PsiLine_keeps
      compute_sW_def regularize_def)

lemma minimize_loop_keeps:
  "m_ktrtr (obj (minimize_loop E local_min opt st)) = m_ktrtr (obj st)
   \<and> m_log_scale (obj (minimize_loop E local_min opt st)) = m_log_scale (obj st)
   \<and> m_mean_f (obj (minimize_loop E local_min opt st)) = m_mean_f (obj st)"
proof (induction E local_min opt st rule: minimize_loop.induct)
  case (1 E local_min opt st)
  show ?case
  proof (cases "continue_loop opt st")
    case True
    with "1" show ?thesis
      by (subst (1 2 3) minimize_loop.simps)
        (simp add: loop_body_def minimize_iteration_keeps)
  next
    case False
    then show ?thesis
      by (subst (1 2 3) minimize_loop.simps) simp
  qed
qed

lemma loop_start_keeps:
  "m_ktrtr (obj (loop_start s)) = m_ktrtr s" "m_log_scale (obj (loop_start s)) = m_log_scale s"
  "m_mean_f (obj (loop_start s)) = m_mean_f s"
  by (simp_all add: loop_start_def minimize_prepare_def Let_def)

lemma f_consistent_recompute_mu:
  "f_consistent (recompute_mu s) \<longleftrightarrow>
     length (m_mean_f s) = num_rows (m_ktrtr s)
     \<and> list_all (\<lambda>row. length row = length (m_alpha s)) (m_ktrtr s)"
  by (simp add: f_consistent_def recompute_mu_def scale2_def)

lemma first_order_point_fields:
  "m_alpha first_order_point = [0]" "m_mu first_order_point = [0]"
  "m_mean_f first_order_point = [0]" "m_ktrtr first_order_point = [[1]]"
  "m_log_scale first_order_point = 0" "m_labels first_order_point = [1]"
  "m_model first_order_point = gaussian_likelihood"
  "m_minimizer first_order_point = FirstOrder gradient_step"
  by (simp_all add: first_order_point_def gaussian_point_fields)

lemma gradient_step_fields:
  "m_alpha (first_order_minimize gradient_step first_order_point) = [1]"
  "m_mu (first_order_minimize gradient_step first_order_point) = [0]"
  "m_mean_f (first_order_minimize gradient_step first_order_point) = [0]"
  "m_ktrtr (first_order_minimize gradient_step first_order_point) = [[1]]"
  "m_log_scale (first_order_minimize gradient_step first_order_point) = 0"
  by (simp_all add: first_order_minimize_def gradient_step_def gradient_wrt_alpha_def
      first_order_point_fields run_defs)

text \<open>
  Whatever the first-order minimizer: when it has returned with an alpha that changes
  \<open>K * scale\<^sup>2 * alpha\<close>, the \<open>f\<close> of a state that was consistent is stale.
\<close>

lemma vec_add_right_cancel:
  "length a = length m \<Longrightarrow> length b = length m \<Longrightarrow> vec_add a m = vec_add b m \<Longrightarrow> a = b"
proof (induction a m arbitrary: b rule: list_induct2)
  case Nil
  then show ?case by simp
next
  case (Cons x xs y ys)
  show ?case
  proof (cases b)
    case Nil
    with Cons.prems show ?thesis by simp
  next
    case (Cons z zs)
    with Cons.prems Cons.IH [of zs] show ?thesis
      by (simp add: vec_add_def)
  qed
qed


lemma first_order_write_stale:
  assumes before: "f_consistent s"
    and moved: "mat_vec (mat_scale (m_ktrtr s) (scale2 s)) (m_alpha (first_order_minimize minimizer s))
                  \<noteq> mat_vec (mat_scale (m_ktrtr s) (scale2 s)) (m_alpha s)"
  shows "\<not> f_consistent (first_order_minimize minimizer s)"
proof
  let ?t = "first_order_minimize minimizer s"
  let ?K = "mat_scale (m_ktrtr s) (scale2 s)"
  assume after: "f_consistent ?t"
  have same: "m_mu ?t = m_mu s" "m_ktrtr ?t = m_ktrtr s" "m_mean_f ?t = m_mean_f s"
    "scale2 ?t = scale2 s"
    by (simp_all add: first_order_minimize_def scale2_def)
  from before have mu: "m_mu s = vec_add (mat_vec ?K (m_alpha s)) (m_mean_f s)"
    and len: "length (m_mean_f s) = num_rows (m_ktrtr s)"
    by (simp_all add: f_consistent_def)
  from after have mu': "m_mu s = vec_add (mat_vec ?K (m_alpha ?t)) (m_mean_f s)"
    by (simp add: f_consistent_def same)
  have eq: "vec_add (mat_vec ?K (m_alpha ?t)) (m_mean_f s)
              = vec_add (mat_vec ?K (m_alpha s)) (m_mean_f s)"
    using mu mu' by simp
  have l1: "length (mat_vec ?K (m_alpha ?t)) = length (m_mean_f s)"
    and l2: "length (mat_vec ?K (m_alpha s)) = length (m_mean_f s)"
    using len by (simp_all add: mat_vec_def mat_scale_def num_rows_def)
  from vec_add_right_cancel [OF l1 l2 eq] moved show False
    by simp
qed

text \<open>
  Claim C5 as stated, for every update of alpha, does not hold. On the Gaussian point
  (alpha = \<open>f\<close> = 0, consistent) a first-order minimizer that makes one gradient step
  writes alpha = 1 through the reference. When it has returned, before the last step of
  \<open>update_alpha\<close>, \<open>f\<close> is still 0 where \<open>K * scale\<^sup>2 * alpha + mean\<close> is 1: the cost
  function computes \<open>f\<close> in a vector of its own and stores none.
\<close>

theorem first_order_write_leaves_f_stale:
  "f_consistent first_order_point
   \<and> m_alpha (first_order_minimize gradient_step first_order_point) = [1]
   \<and> m_mu (first_order_minimize gradient_step first_order_point) = [0]
   \<and> vec_add (mat_vec (mat_scale (m_ktrtr (first_order_minimize gradient_step first_order_point))
                          (scale2 (first_order_minimize gradient_step first_order_point)))
                (m_alpha (first_order_minimize gradient_step first_order_point)))
        (m_mean_f (first_order_minimize gradient_step first_order_point)) = [1]
   \<and> \<not> f_consistent (first_order_minimize gradient_step first_order_point)"
  by (simp add: f_consistent_def gradient_step_fields first_order_point_fields run_defs)

lemma newton_point_fields:
  "m_ktrtr newton_point = [[1]]" "m_mean_f newton_point = [0]" "m_log_scale newton_point = 0"
  "m_minimizer newton_point = Newton one_iteration"
  by (simp_all add: newton_point_def gaussian_point_fields)

lemma newton_point_loop:
  "minimize_loop exact_eigen (single_probe (1 / 10)) one_iteration (loop_start newton_point)
     = loop_body exact_eigen (single_probe (1 / 10)) one_iteration (loop_start newton_point)"
proof -
  have go: "continue_loop one_iteration (loop_start newton_point)"
    by (simp add: continue_loop_def decrease_exceeds_def loop_start_def one_iteration_def
        init_def)
  have stop: "\<not> continue_loop one_iteration
                  (loop_body exact_eigen (single_probe (1 / 10)) one_iteration
                     (loop_start newton_point))"
    by (simp add: continue_loop_def loop_body_def loop_start_def one_iteration_def init_def)
  show ?thesis
    by (subst minimize_loop.simps, subst minimize_loop.simps) (simp add: go stop)
qed

lemma newton_point_run:
  "update_alpha exact_eigen (single_probe (1 / 10)) newton_point
     = Inr (recompute_mu (obj (loop_body exact_eigen (single_probe (1 / 10)) one_iteration
                                 (loop_start newton_point))))"
  by (simp add: update_alpha_def newton_point_fields minimize_def Let_def newton_point_loop)

lemma newton_point_step:
  "m_alpha (obj (loop_body exact_eigen (single_probe (1 / 10)) one_iteration
                   (loop_start newton_point))) = [1 / 2]"
  "m_ktrtr (obj (loop_body exact_eigen (single_probe (1 / 10)) one_iteration
                   (loop_start newton_point))) = [[1]]"
  "m_mean_f (obj (loop_body exact_eigen (single_probe (1 / 10)) one_iteration
                   (loop_start newton_point))) = [0]"
  "m_log_scale (obj (loop_body exact_eigen (single_probe (1 / 10)) one_iteration
                   (loop_start newton_point))) = 0"
  by (simp_all add: loop_body_def loop_start_def newton_point_def gaussian_point_def
      one_iteration_def run_defs)

lemma newton_point_after:
  "map_sum id m_alpha (update_alpha exact_eigen (single_probe (1 / 10)) newton_point)
     = Inr [1 / 2]"
  "map_sum id m_mu (update_alpha exact_eigen (single_probe (1 / 10)) newton_point)
     = Inr [1 / 2]"
  by (simp_all add: newton_point_run recompute_mu_def newton_point_step scale2_def vec_add_def
      mat_vec_def mat_scale_def vec_scale_def dot_def)

text \<open>
  Claim C5, amended. \<open>f = K * scale\<^sup>2 * alpha + mean\<close> is recomputed from the current alpha
  at three places. An evaluation of the objective of the line search, as \<open>minimize\<close> sets
  it up, leaves alpha = \<open>start + x * dalpha\<close> and \<open>f\<close> computed from it. \<open>update_init\<close>
  leaves \<open>f\<close> computed from the alpha it leaves and the mean vector. \<open>update_alpha\<close>
  returns for the Newton optimizer and for every first-order minimizer, with the alpha
  the minimizer has left, \<open>f\<close> computed from it, and the kernel matrix, the scale and the
  mean vector of before. In each case the state is consistent when the kernel matrix
  has one row for each entry of the mean vector and one column for each entry of alpha.
  While a first-order minimizer runs, \<open>f\<close> is not recomputed.
\<close>

theorem f_recomputed_from_alpha:
  fixes s u v :: state and a d :: vec and E :: eigen and local_min :: line_search
  defines "func \<equiv> \<lparr>line_log_scale = m_log_scale s, line_K = m_ktrtr s, line_dalpha = d,
                    line_start_alpha = a\<rparr>"
  defines "mean \<equiv> get_mean_vector (m_mean u) (m_features u)"
  defines "alpha_left \<equiv>
     (case m_minimizer v of
        Newton opt \<Rightarrow> m_alpha (obj (minimize_loop E local_min opt (loop_start v)))
      | FirstOrder minimizer \<Rightarrow> m_alpha (first_order_minimize minimizer v)
      | OtherMinimizer \<Rightarrow> m_alpha v)"
  shows "m_alpha (snd (PsiLine_call func x s)) = vec_add a (scale_vec x d)
       \<and> m_mu (snd (PsiLine_call func x s)) =
           vec_add (mat_vec (mat_scale (m_ktrtr s) (scale2 s)) (vec_add a (scale_vec x d)))
             (m_mean_f s)
       \<and> (length (m_mean_f s) = num_rows (m_ktrtr s)
            \<and> list_all (\<lambda>row. length row = length (vec_add a (scale_vec x d))) (m_ktrtr s)
          \<longrightarrow> f_consistent (snd (PsiLine_call func x s)))
       \<and> (length mean = num_rows (m_ktrtr u) \<longrightarrow>
            m_mu (update_init u) =
              vec_add (mat_vec (mat_scale (m_ktrtr u) (scale2 u)) (m_alpha (update_init u)))
                mean)
       \<and> (length mean = num_rows (m_ktrtr u)
            \<and> list_all (\<lambda>row. length row = length (m_labels u)) (m_ktrtr u)
          \<longrightarrow> f_consistent (update_init u))
       \<and> (case update_alpha E local_min v of
            Inl e \<Rightarrow> m_minimizer v = OtherMinimizer
          | Inr v' \<Rightarrow>
              m_alpha v' = alpha_left
              \<and> m_mu v' =
                  vec_add (mat_vec (mat_scale (m_ktrtr v) (scale2 v)) alpha_left) (m_mean_f v)
              \<and> m_ktrtr v' = m_ktrtr v \<and> m_log_scale v' = m_log_scale v
              \<and> m_mean_f v' = m_mean_f v
              \<and> (length (m_mean_f v) = num_rows (m_ktrtr v)
                   \<and> list_all (\<lambda>row. length row = length alpha_left) (m_ktrtr v)
                 \<longrightarrow> f_consistent v'))"
proof -
  have line: "m_alpha (snd (PsiLine_call func x s)) = vec_add a (scale_vec x d)"
    "m_mu (snd (PsiLine_call func x s)) =
           vec_add (mat_vec (mat_scale (m_ktrtr s) (scale2 s)) (vec_add a (scale_vec x d)))
             (m_mean_f s)"
    by (simp_all add: PsiLine_call_fields func_def scale2_def)
  have line_c: "f_consistent (snd (PsiLine_call func x s))"
    if "length (m_mean_f s) = num_rows (m_ktrtr s)
        \<and> list_all (\<lambda>row. length row = length (vec_add a (scale_vec x d))) (m_ktrtr s)"
    using that line by (simp add: f_consistent_def PsiLine_call_fields scale2_def)
  have init_mu: "m_mu (update_init u) =
              vec_add (mat_vec (mat_scale (m_ktrtr u) (scale2 u)) (m_alpha (update_init u)))
                mean"
    if "length mean = num_rows (m_ktrtr u)"
    using kernel_times_zero_plus_mean [of mean "m_ktrtr u"] that
    by (simp add: update_init_def Let_def zero_vec_def scale2_def mean_def)
  have init_c: "f_consistent (update_init u)"
    if h: "length mean = num_rows (m_ktrtr u)
            \<and> list_all (\<lambda>row. length row = length (m_labels u)) (m_ktrtr u)"
  proof -
    have "m_ktrtr (update_init u) = m_ktrtr u" "m_log_scale (update_init u) = m_log_scale u"
      "m_mean_f (update_init u) = mean" "length (m_alpha (update_init u)) = length (m_labels u)"
      by (simp_all add: update_init_def Let_def mean_def zero_vec_def)
    with h init_mu show ?thesis
      by (simp add: f_consistent_def scale2_def)
  qed
  have alpha: "case update_alpha E local_min v of
            Inl e \<Rightarrow> m_minimizer v = OtherMinimizer
          | Inr v' \<Rightarrow>
              m_alpha v' = alpha_left
              \<and> m_mu v' =
                  vec_add (mat_vec (mat_scale (m_ktrtr v) (scale2 v)) alpha_left) (m_mean_f v)
              \<and> m_ktrtr v' = m_ktrtr v \<and> m_log_scale v' = m_log_scale v
              \<and> m_mean_f v' = m_mean_f v
              \<and> (length (m_mean_f v) = num_rows (m_ktrtr v)
                   \<and> list_all (\<lambda>row. length row = length alpha_left) (m_ktrtr v)
                 \<longrightarrow> f_consistent v')"
  proof (cases "m_minimizer v")
    case (Newton opt)
    let ?t = "obj (minimize_loop E local_min opt (loop_start v))"
    have keep: "m_ktrtr ?t = m_ktrtr v" "m_log_scale ?t = m_log_scale v"
      "m_mean_f ?t = m_mean_f v"
      using minimize_loop_keeps [of E local_min opt "loop_start v"]
      by (simp_all add: loop_start_keeps)
    have "update_alpha E local_min v = Inr (recompute_mu ?t)"
      by (simp add: update_alpha_def Newton minimize_def Let_def)
    with keep show ?thesis
      by (simp add: alpha_left_def Newton f_consistent_recompute_mu)
        (simp add: recompute_mu_def scale2_def)
  next
    case (FirstOrder minimizer)
    let ?t = "first_order_minimize minimizer v"
    have keep: "m_ktrtr ?t = m_ktrtr v" "m_log_scale ?t = m_log_scale v"
      "m_mean_f ?t = m_mean_f v"
      by (simp_all add: first_order_minimize_def)
    have "update_alpha E local_min v = Inr (recompute_mu ?t)"
      by (simp add: update_alpha_def FirstOrder)
    with keep show ?thesis
      by (simp add: alpha_left_def FirstOrder f_consistent_recompute_mu)
        (simp add: recompute_mu_def scale2_def)
  next
    case OtherMinimizer
    then show ?thesis by (simp add: update_alpha_def)
  qed
  from line line_c init_mu init_c alpha show ?thesis
    by blast
qed


theorem f_recomputed_from_alpha_witness:
  "length (m_mean_f gaussian_point) = num_rows (m_ktrtr gaussian_point)
   \<and> m_ktrtr gaussian_point = [[1]]
   \<and> m_alpha (snd (PsiLine_call
        \<lparr>line_log_scale = m_log_scale gaussian_point, line_K = m_ktrtr gaussian_point,
         line_dalpha = [1 / 2], line_start_alpha = [0]\<rparr> 1 gaussian_point)) = [1 / 2]
   \<and> m_mu (snd (PsiLine_call
        \<lparr>line_log_scale = m_log_scale gaussian_point, line_K = m_ktrtr gaussian_point,
         line_dalpha = [1 / 2], line_start_alpha = [0]\<rparr> 1 gaussian_point)) = [1 / 2]
   \<and> f_consistent (snd (PsiLine_call
        \<lparr>line_log_scale = m_log_scale gaussian_point, line_K = m_ktrtr gaussian_point,
         line_dalpha = [1 / 2], line_start_alpha = [0]\<rparr> 1 gaussian_point))
   \<and> m_alpha (update_init warm_point) = [1 / 2]
   \<and> m_mu (update_init warm_point) = [1 / 2]
   \<and> f_consistent (update_init warm_point)
   \<and> map_sum id m_alpha (update_alpha exact_eigen (single_probe (1 / 10)) first_order_point)
       = Inr [1]
   \<and> map_sum id m_mu (update_alpha exact_eigen (single_probe (1 / 10)) first_order_point)
       = Inr [1]
   \<and> map_sum id f_consistent
        (update_alpha exact_eigen (single_probe (1 / 10)) first_order_point) = Inr True
   \<and> map_sum id m_alpha (update_alpha exact_eigen (single_probe (1 / 10)) newton_point)
       = Inr [1 / 2]
   \<and> map_sum id m_mu (update_alpha exact_eigen (single_probe (1 / 10)) newton_point)
       = Inr [1 / 2]
   \<and> map_sum id f_consistent
        (update_alpha exact_eigen (single_probe (1 / 10)) newton_point) = Inr True"
proof -
  let ?F = "\<lparr>line_log_scale = m_log_scale gaussian_point, line_K = m_ktrtr gaussian_point,
             line_dalpha = [1 / 2], line_start_alpha = [0]\<rparr>"
  have dims: "length (m_mean_f gaussian_point) = num_rows (m_ktrtr gaussian_point)"
    "m_ktrtr gaussian_point = [[1]]"
    by (simp_all add: gaussian_point_fields num_rows_def)
  have line: "m_alpha (snd (PsiLine_call ?F 1 gaussian_point)) = [1 / 2]"
    "m_mu (snd (PsiLine_call ?F 1 gaussian_point)) = [1 / 2]"
    "m_mean_f (snd (PsiLine_call ?F 1 gaussian_point)) = [0]"
    "m_ktrtr (snd (PsiLine_call ?F 1 gaussian_point)) = [[1]]"
    "m_log_scale (snd (PsiLine_call ?F 1 gaussian_point)) = 0"
    by (simp_all add: PsiLine_call_def gaussian_point_fields Let_def vec_add_def scale_vec_def
        mat_vec_def vec_scale_def dot_def)
  note T = f_recomputed_from_alpha
            [where s = gaussian_point and a = "[0]" and d = "[1 / 2]" and x = 1
               and u = warm_point and v = first_order_point and E = exact_eigen
               and local_min = "single_probe (1 / 10)"]
  have line_c: "f_consistent (snd (PsiLine_call ?F 1 gaussian_point))"
    using T [THEN conjunct2, THEN conjunct2, THEN conjunct1]
    by (simp add: gaussian_point_fields num_rows_def vec_add_def scale_vec_def)
  have warm: "m_alpha (update_init warm_point) = [1 / 2]"
    "m_mu (update_init warm_point) = [1 / 2]"
    by (simp_all add: warm_point_def run_defs power2_eq_square)
  have warm_c: "f_consistent (update_init warm_point)"
    using T [THEN conjunct2, THEN conjunct2, THEN conjunct2, THEN conjunct2, THEN conjunct1]
    by (simp add: warm_point_def one_point_def zero_mean_def num_rows_def)
  have ret: "update_alpha exact_eigen (single_probe (1 / 10)) first_order_point
               = Inr (recompute_mu (first_order_minimize gradient_step first_order_point))"
    by (simp add: update_alpha_def first_order_point_fields)
  have after: "m_alpha (recompute_mu (first_order_minimize gradient_step first_order_point)) = [1]"
    "m_mu (recompute_mu (first_order_minimize gradient_step first_order_point)) = [1]"
    by (simp_all add: recompute_mu_def gradient_step_fields scale2_def vec_add_def mat_vec_def
        mat_scale_def vec_scale_def dot_def)
  have after_c: "f_consistent (recompute_mu (first_order_minimize gradient_step first_order_point))"
    using T [THEN conjunct2, THEN conjunct2, THEN conjunct2, THEN conjunct2, THEN conjunct2]
    by (simp add: ret first_order_point_fields gradient_step_fields num_rows_def)
  have ret_vals:
    "map_sum id m_alpha (update_alpha exact_eigen (single_probe (1 / 10)) first_order_point)
       = Inr [1]"
    "map_sum id m_mu (update_alpha exact_eigen (single_probe (1 / 10)) first_order_point)
       = Inr [1]"
    "map_sum id f_consistent
        (update_alpha exact_eigen (single_probe (1 / 10)) first_order_point) = Inr True"
    by (simp_all add: ret after after_c)
  note N = f_recomputed_from_alpha
            [where s = gaussian_point and a = "[0]" and d = "[1 / 2]" and x = 1
               and u = warm_point and v = newton_point and E = exact_eigen
               and local_min = "single_probe (1 / 10)"]
  have newton_c: "map_sum id f_consistent
        (update_alpha exact_eigen (single_probe (1 / 10)) newton_point) = Inr True"
    using N [THEN conjunct2, THEN conjunct2, THEN conjunct2, THEN conjunct2, THEN conjunct2]
    by (simp add: newton_point_run newton_point_loop newton_point_step newton_point_fields
        num_rows_def)
  from dims line(1,2) line_c warm warm_c ret_vals newton_point_after newton_c show ?thesis
    by blast
qed


subsection \<open>The Newton iteration\<close>

text \<open>
  The value of the objective of the line search depends on the point only, not on the
  state earlier evaluations have left; and the state after the line search is the one
  the last evaluation leaves.
\<close>

lemma PsiLine_value_independent:
  "fst (PsiLine_call func x (snd (PsiLine_call func y s))) = fst (PsiLine_call func x s)"
  by (simp add: PsiLine_call_def Let_def)

lemma fold_PsiLine_last:
  "xs \<noteq> [] \<Longrightarrow>
     fold (\<lambda>x t. snd (PsiLine_call func x t)) xs s = snd (PsiLine_call func (last xs) s)"
proof (induction xs arbitrary: s)
  case Nil
  then show ?case by simp
next
  case (Cons y ys)
  show ?case
  proof (cases ys)
    case Nil
    then show ?thesis by simp
  next
    case (Cons z zs)
    with Cons.IH [of "snd (PsiLine_call func y s)"] show ?thesis
      by (simp add: PsiLine_call_def Let_def)
  qed
qed

lemma fold_PsiLine_sW:
  "m_sW (fold (\<lambda>x t. snd (PsiLine_call func x t)) xs s) = m_sW s"
  by (induction xs arbitrary: s) (simp_all add: PsiLine_call_def Let_def)

lemma brent_step_sW: "m_sW (snd (brent_step local_min opt d s)) = m_sW s"
  by (simp add: brent_step_def Let_def fold_PsiLine_sW)

text \<open>
  Claim C4. In an iteration that starts with a negative entry in \<open>W\<close>, the optimizer
  replaces \<open>W\<close> by \<open>W + (2 / df) * dlp\<^sup>2\<close>, entry by entry, where \<open>df\<close> is the degrees of
  freedom of the likelihood when it is Student's t and 1 otherwise; \<open>sW\<close> is then the
  elementwise square root of this \<open>W\<close>, the direction of the iteration is computed from
  them, and the line search leaves \<open>sW\<close> as it is.
\<close>

theorem newton_regularization:
  fixes E local_min opt s
  defines "df \<equiv> (if get_model_type (m_model s) = LT_STUDENTST
                  then get_degrees_freedom (m_model s) else 1)"
  assumes neg: "minCoeff (m_W s) < 0"
    and len: "length (m_dlp s) = length (m_W s)"
  shows "length (m_W (regularize s)) = length (m_W s)
       \<and> (\<forall>i<length (m_W s).
            m_W (regularize s) ! i = m_W s ! i + 2 / df * (m_dlp s ! i * m_dlp s ! i))
       \<and> m_sW (compute_sW (regularize s)) = map sqrt (m_W (regularize s))
       \<and> m_sW (snd (minimize_iteration E local_min opt s)) = map sqrt (m_W (regularize s))
       \<and> minimize_iteration E local_min opt s =
           brent_step local_min opt (newton_dalpha E (compute_sW (regularize s)))
             (compute_sW (regularize s))"
  using neg len
  by (simp add: regularize_def compute_sW_def Let_def df_def vec_add_def scale_vec_def
      cwiseProduct_def cwiseSqrt_def minimize_iteration_def brent_step_sW)

lemma outlier_start_fields:
  "m_W outlier_start = [- 4 / 25]" "m_dlp outlier_start = [3 / 5]"
  "m_model outlier_start = students_t_likelihood"
  by (simp_all add: outlier_start_def run_defs power2_eq_square)

theorem newton_regularization_witness:
  "minCoeff (m_W outlier_start) < 0
   \<and> length (m_dlp outlier_start) = length (m_W outlier_start)
   \<and> m_W (regularize outlier_start) = [14 / 25]
   \<and> m_sW (snd (minimize_iteration exact_eigen (single_probe (1 / 10)) init outlier_start))
       = [sqrt (14 / 25)]"
proof -
  have neg: "minCoeff (m_W outlier_start) < 0"
    and len: "length (m_dlp outlier_start) = length (m_W outlier_start)"
    by (simp_all add: outlier_start_fields)
  have W: "m_W (regularize outlier_start) = [14 / 25]"
    using newton_regularization [OF neg len, of exact_eigen "single_probe (1 / 10)" init]
    by (simp add: outlier_start_fields students_t_likelihood_def list_eq_iff_nth_eq)
  have "m_sW (snd (minimize_iteration exact_eigen (single_probe (1 / 10)) init outlier_start))
          = map sqrt (m_W (regularize outlier_start))"
    using newton_regularization [OF neg len, of exact_eigen "single_probe (1 / 10)" init]
    by blast
  with neg len W show ?thesis
    by simp
qed

subsection \<open>The loop of the Newton optimizer\<close>

text \<open>The tests of the loop condition: all but the last succeed, the last fails, each
  state is the body applied to the one before, and the loop ends in the last.\<close>

lemma loop_tests_nonempty: "loop_tests E local_min opt st \<noteq> []"
  by (subst loop_tests.simps) simp

lemma minimize_loop_last: "minimize_loop E local_min opt st = last (loop_tests E local_min opt st)"
proof (induction E local_min opt st rule: loop_tests.induct)
  case (1 E local_min opt st)
  show ?case
  proof (cases "continue_loop opt st")
    case True
    with "1" show ?thesis
      by (subst minimize_loop.simps, subst loop_tests.simps) (simp add: loop_tests_nonempty)
  next
    case False
    then show ?thesis
      by (subst minimize_loop.simps, subst loop_tests.simps) simp
  qed
qed

lemma loop_tests_butlast: "t \<in> set (butlast (loop_tests E local_min opt st)) \<Longrightarrow> continue_loop opt t"
proof (induction E local_min opt st rule: loop_tests.induct)
  case (1 E local_min opt st)
  show ?case
  proof (cases "continue_loop opt st")
    case True
    from "1.prems" have "t \<in> set (butlast (st # loop_tests E local_min opt (loop_body E local_min opt st)))"
      using True by (subst (asm) loop_tests.simps) simp
    then have "t = st \<or> t \<in> set (butlast (loop_tests E local_min opt (loop_body E local_min opt st)))"
      by (simp add: loop_tests_nonempty)
    with True "1.IH" show ?thesis by auto
  next
    case False
    with "1.prems" show ?thesis
      by (subst (asm) loop_tests.simps) simp
  qed
qed

lemma loop_tests_last: "\<not> continue_loop opt (last (loop_tests E local_min opt st))"
proof (induction E local_min opt st rule: loop_tests.induct)
  case (1 E local_min opt st)
  show ?case
  proof (cases "continue_loop opt st")
    case True
    with "1" show ?thesis
      by (subst loop_tests.simps) (simp add: loop_tests_nonempty)
  next
    case False
    then show ?thesis
      by (subst loop_tests.simps) simp
  qed
qed

lemma loop_tests_length:
  "iter (last (loop_tests E local_min opt st)) = iter st + int (length (loop_tests E local_min opt st)) - 1"
proof (induction E local_min opt st rule: loop_tests.induct)
  case (1 E local_min opt st)
  show ?case
  proof (cases "continue_loop opt st")
    case True
    with "1" show ?thesis
      by (subst (1 2) loop_tests.simps) (simp add: loop_tests_nonempty loop_body_def)
  next
    case False
    then show ?thesis
      by (subst (1 2) loop_tests.simps) simp
  qed
qed

lemma loop_tests_chain:
  "Suc k < length (loop_tests E local_min opt st) \<Longrightarrow>
     loop_tests E local_min opt st ! Suc k = loop_body E local_min opt (loop_tests E local_min opt st ! k)"
proof (induction E local_min opt st arbitrary: k rule: loop_tests.induct)
  case (1 E local_min opt st)
  show ?case
  proof (cases "continue_loop opt st")
    case True
    have eq: "loop_tests E local_min opt st = st # loop_tests E local_min opt (loop_body E local_min opt st)"
      using True by (subst loop_tests.simps) simp
    have hd: "loop_tests E local_min opt (loop_body E local_min opt st) ! 0 = loop_body E local_min opt st"
      by (subst loop_tests.simps) simp
    show ?thesis
    proof (cases k)
      case 0
      then show ?thesis by (simp add: eq hd)
    next
      case (Suc j)
      with "1.prems" have "Suc j < length (loop_tests E local_min opt (loop_body E local_min opt st))"
        by (simp add: eq)
      from "1.IH" [OF True this] Suc show ?thesis by (simp add: eq)
    qed
  next
    case False
    with "1.prems" show ?thesis
      by (subst (asm) loop_tests.simps) simp
  qed
qed

lemma loop_tests_best:
  assumes "0 \<le> m_tolerance opt"
    and "decrease_exceeds (Psi_Old (last (loop_tests E local_min opt st)))
           (Psi_New (last (loop_tests E local_min opt st))) (m_tolerance opt)"
    and "t \<in> set (loop_tests E local_min opt st)"
  shows "Psi_New (last (loop_tests E local_min opt st)) \<le> Psi_New t"
  using assms
proof (induction E local_min opt st arbitrary: t rule: loop_tests.induct)
  case (1 E local_min opt st)
  show ?case
  proof (cases "continue_loop opt st")
    case True
    let ?next = "loop_body E local_min opt st"
    have eq: "loop_tests E local_min opt st = st # loop_tests E local_min opt ?next"
      using True by (subst loop_tests.simps) simp
    have last_eq: "last (loop_tests E local_min opt st) = last (loop_tests E local_min opt ?next)"
      by (simp add: eq loop_tests_nonempty)
    have dec: "decrease_exceeds (Psi_Old (last (loop_tests E local_min opt ?next)))
           (Psi_New (last (loop_tests E local_min opt ?next))) (m_tolerance opt)"
      using "1.prems"(2) by (simp add: last_eq)
    have tail: "Psi_New (last (loop_tests E local_min opt ?next)) \<le> Psi_New u"
      if "u \<in> set (loop_tests E local_min opt ?next)" for u
      using "1.IH" [OF True "1.prems"(1) dec that] .
    have head_in: "?next \<in> set (loop_tests E local_min opt ?next)"
      by (subst loop_tests.simps) simp
    have step: "Psi_New ?next < Psi_New st"
    proof (cases "continue_loop opt ?next")
      case True
      then show ?thesis
        using "1.prems"(1) by (simp add: continue_loop_def decrease_exceeds_def loop_body_def)
    next
      case False
      then have "loop_tests E local_min opt ?next = [?next]"
        by (subst loop_tests.simps) simp
      with dec show ?thesis
        using "1.prems"(1) by (simp add: decrease_exceeds_def loop_body_def)
    qed
    from "1.prems"(3) have "t = st \<or> t \<in> set (loop_tests E local_min opt ?next)"
      by (simp add: eq)
    then show ?thesis
    proof
      assume "t = st"
      with step tail [OF head_in] show ?thesis by (simp add: last_eq)
    next
      assume "t \<in> set (loop_tests E local_min opt ?next)"
      with tail show ?thesis by (simp add: last_eq)
    qed
  next
    case False
    with "1.prems"(3) show ?thesis
      by (subst (asm) loop_tests.simps, subst loop_tests.simps) simp
  qed
qed

text \<open>One step from alpha = 0 on the Gaussian point, with a line search that probes the
  fraction \<open>c\<close> of the interval: the direction is 1/2 and the probe is at
  \<open>x = c * m_opt_max\<close>.\<close>

lemma gaussian_start:
  "Psi_Old (loop_start gaussian_point) = None"
  "Psi_New (loop_start gaussian_point) = 1 / 2 + ln (2 * pi) / 2"
  "iter (loop_start gaussian_point) = 0"
  by (simp_all add: loop_start_def gaussian_point_fields)

lemma gaussian_step:
  "Psi_Old (loop_body exact_eigen (single_probe c) opt (loop_start gaussian_point))
     = Some (1 / 2 + ln (2 * pi) / 2)"
  "iter (loop_body exact_eigen (single_probe c) opt (loop_start gaussian_point)) = 1"
  by (simp_all add: loop_body_def gaussian_start)

lemma gaussian_step_Psi:
  "Psi_New (loop_body exact_eigen (single_probe c) opt (loop_start gaussian_point))
     = (c * m_opt_max opt / 2) * (c * m_opt_max opt / 2) / 2 
       + (1 - c * m_opt_max opt / 2) ^ 2 / 2 + ln (2 * pi) / 2"
  by (simp add: loop_body_def loop_start_def gaussian_point_def run_defs)


text \<open>
  The line search with the coarse tolerance: the first probe, at the golden section
  \<open>x = 10 * c = 5 * (3 - \<surd>5)\<close> of \<open>[0, 10]\<close>, already lies within twice the tolerance of
  both ends, so the search ends with this one evaluation, whatever the bound on its
  steps.
\<close>

lemma brent_loop_stop: "brent_stop t B \<Longrightarrow> brent_loop n t f B = B"
  by (cases n) simp_all

lemma sqrt5_bounds: "2 < sqrt 5" "sqrt 5 < 9 / 4"
proof -
  show "2 < sqrt 5"
    by (rule real_less_rsqrt) simp
  show "sqrt 5 < 9 / 4"
    by (rule real_less_lsqrt) (simp_all add: power2_eq_square)
qed

lemma coarse_stop:
  "brent_stop 20 \<lparr>sa = 0, sb = 10, bx = brent_c * 10, bw = w, bv = v, be = e, bd = d,
                 bfx = a, bfw = b, bfv = c, probes = ps\<rparr>"
proof -
  have "0 \<le> brent_eps" by (simp add: brent_eps_def)
  moreover have "0 \<le> brent_c * 10" using sqrt5_bounds by (simp add: brent_c_def)
  ultimately have "0 \<le> brent_eps * \<bar>brent_c * 10\<bar>" by simp
  moreover have "\<bar>brent_c * 10 - 5\<bar> \<le> 3" using sqrt5_bounds by (simp add: brent_c_def abs_if)
  ultimately show ?thesis
    by (simp add: brent_stop_def brent_tol_def mult.commute)
qed

lemma coarse_local_min:
  "local_min_bounded n 0 10 20 f = single_probe brent_c 0 10 20 f"
  by (simp add: local_min_bounded_def single_probe_def Let_def brent_loop_stop [OF coarse_stop])

lemma coarse_iteration:
  "minimize_iteration E (local_min_bounded n) coarse_search s
     = minimize_iteration E (single_probe brent_c) coarse_search s"
  by (simp add: minimize_iteration_def brent_step_def Let_def coarse_search_def init_def
      coarse_local_min)

lemma coarse_body:
  "loop_body E (local_min_bounded n) coarse_search st
     = loop_body E (single_probe brent_c) coarse_search st"
  by (simp add: loop_body_def coarse_iteration)

lemma coarse_vals:
  "Psi_Old (loop_body exact_eigen (local_min_bounded n) coarse_search (loop_start gaussian_point))
     = Some (1 / 2 + ln (2 * pi) / 2)"
  "iter (loop_body exact_eigen (local_min_bounded n) coarse_search (loop_start gaussian_point))
     = 1"
  by (simp_all add: coarse_body gaussian_step)

lemma coarse_Psi:
  "Psi_New (loop_body exact_eigen (local_min_bounded n) coarse_search (loop_start gaussian_point))
     = 161 / 2 - 35 * sqrt 5 + ln (2 * pi) / 2"
proof -
  have r: "sqrt 5 * sqrt 5 = 5" by simp
  have "(brent_c * 10 / 2) * (brent_c * 10 / 2) / 2 + (1 - brent_c * 10 / 2)\<^sup>2 / 2
          = 161 / 2 - 35 * sqrt 5"
    unfolding brent_c_def power2_eq_square
    using r by (simp add: field_simps)
  moreover have "m_opt_max coarse_search = 10"
    by (simp add: coarse_search_def init_def)
  ultimately show ?thesis
    by (simp add: coarse_body gaussian_step_Psi)
qed

lemma coarse_loop:
  "minimize_loop exact_eigen (local_min_bounded n) coarse_search (loop_start gaussian_point)
     = loop_body exact_eigen (local_min_bounded n) coarse_search (loop_start gaussian_point)"
proof -
  have go: "continue_loop coarse_search (loop_start gaussian_point)"
    by (simp add: continue_loop_def decrease_exceeds_def gaussian_start)
      (simp add: init_def coarse_search_def)
  have "m_tolerance coarse_search = 1 / 10 ^ 6"
    by (simp add: coarse_search_def init_def)
  then have stop: "\<not> continue_loop coarse_search
                  (loop_body exact_eigen (local_min_bounded n) coarse_search
                     (loop_start gaussian_point))"
    using sqrt5_bounds
    by (simp add: continue_loop_def decrease_exceeds_def coarse_Psi coarse_vals)
  show ?thesis
    by (subst minimize_loop.simps, subst minimize_loop.simps) (simp add: go stop)
qed

text \<open>
  Claim C2 as stated, with the absolute value of the change, does not hold. On the
  Gaussian point, with the default tolerance and cap of the Newton loop and the coarse
  line search, the direction is 1/2 and the one probe at \<open>x = 5 * (3 - \<surd>5)\<close>, about 3.82,
  overshoots the minimum at \<open>x = 1\<close>: \<open>Psi\<close> rises from \<open>1/2 + ln(2\<pi>)/2\<close> to
  \<open>161/2 - 35 * \<surd>5 + ln(2\<pi>)/2\<close>, by about 1.74. The change is above the tolerance in
  absolute value and one iteration is below the cap of 20, yet the loop has ended: its
  condition tests the signed decrease \<open>Psi_Old - Psi_New\<close>.
\<close>

theorem newton_loop_stops_on_increase:
  "Psi_Old (minimize_loop exact_eigen (local_min_bounded 100) coarse_search
              (loop_start gaussian_point))
     = Some (1 / 2 + ln (2 * pi) / 2)
   \<and> Psi_New (minimize_loop exact_eigen (local_min_bounded 100) coarse_search
                (loop_start gaussian_point))
       = 161 / 2 - 35 * sqrt 5 + ln (2 * pi) / 2
   \<and> iter (minimize_loop exact_eigen (local_min_bounded 100) coarse_search
             (loop_start gaussian_point)) = 1
   \<and> \<bar>(1 / 2 + ln (2 * pi) / 2) - (161 / 2 - 35 * sqrt 5 + ln (2 * pi) / 2)\<bar>
       > m_tolerance coarse_search
   \<and> 1 < m_iter coarse_search
   \<and> m_tolerance coarse_search = 1 / 10 ^ 6 \<and> m_iter coarse_search = 20
   \<and> spec_continue_loop coarse_search
        (minimize_loop exact_eigen (local_min_bounded 100) coarse_search
           (loop_start gaussian_point))
   \<and> map_sum id iterations
        (minimize exact_eigen (local_min_bounded 100) coarse_search (Some gaussian_point))
       = Inr 1"
proof -
  note vals = coarse_vals [of 100]
  have big: "\<bar>(1 / 2 + ln (2 * pi) / 2) - (161 / 2 - 35 * sqrt 5 + ln (2 * pi) / 2)\<bar>
       > m_tolerance coarse_search"
    using sqrt5_bounds by (simp add: coarse_search_def init_def)
  have defaults: "m_tolerance coarse_search = 1 / 10 ^ 6" "m_iter coarse_search = 20"
    by (simp_all add: coarse_search_def init_def)
  have spec: "spec_continue_loop coarse_search
        (minimize_loop exact_eigen (local_min_bounded 100) coarse_search
           (loop_start gaussian_point))"
    using big by (simp add: spec_continue_loop_def coarse_loop vals coarse_Psi defaults)
  have its: "map_sum id iterations
        (minimize exact_eigen (local_min_bounded 100) coarse_search (Some gaussian_point))
       = Inr 1"
    by (simp add: minimize_def Let_def coarse_loop vals)
  from vals big defaults spec its show ?thesis
    by (simp add: coarse_loop coarse_Psi)
qed

text \<open>
  Claim C2, amended. \<open>minimize\<close> on a target always returns. It iterates exactly while
  the signed decrease \<open>Psi_Old - Psi_New\<close> exceeds the tolerance (\<open>Psi_Old\<close> being infinite
  before the first iteration) and the iteration count is below the cap: every test of the
  loop condition but the last succeeds, the last fails, and the value returned is
  \<open>Psi_New\<close> of the last. The warning is printed exactly when the decrease still exceeds
  the tolerance at the cap; then, for a tolerance that is not negative, the value
  returned is the least \<open>Psi\<close> of the run. The default tolerance is \<open>10\<^sup>-\<^sup>6\<close> and the
  default cap 20.
\<close>

theorem newton_loop_signed_decrease:
  fixes E local_min opt s
  defines "tests \<equiv> loop_tests E local_min opt (loop_start s)"
  shows "minimize E local_min opt (Some s) =
           Inr \<lparr>Psi_returned = Psi_New (last tests),
                warned = (decrease_exceeds (Psi_Old (last tests)) (Psi_New (last tests))
                            (m_tolerance opt)
                          \<and> m_iter opt \<le> iter (last tests)),
                iterations = int (length tests) - 1,
                target = obj (last tests)\<rparr>
       \<and> tests ! 0 = loop_start s
       \<and> (\<forall>k. Suc k < length tests \<longrightarrow> tests ! Suc k = loop_body E local_min opt (tests ! k))
       \<and> (\<forall>t\<in>set (butlast tests).
            decrease_exceeds (Psi_Old t) (Psi_New t) (m_tolerance opt) \<and> iter t < m_iter opt)
       \<and> \<not> (decrease_exceeds (Psi_Old (last tests)) (Psi_New (last tests)) (m_tolerance opt)
            \<and> iter (last tests) < m_iter opt)
       \<and> iter (last tests) = int (length tests) - 1
       \<and> (0 \<le> m_tolerance opt
            \<and> decrease_exceeds (Psi_Old (last tests)) (Psi_New (last tests)) (m_tolerance opt)
            \<and> m_iter opt \<le> iter (last tests) \<longrightarrow>
          (\<forall>t\<in>set tests. Psi_New (last tests) \<le> Psi_New t))
       \<and> m_tolerance init = 1 / 10 ^ 6 \<and> m_iter init = 20"
proof -
  have len: "iter (last tests) = int (length tests) - 1"
    using loop_tests_length [of E local_min opt "loop_start s"]
    by (simp add: tests_def loop_start_def)
  have ret: "minimize E local_min opt (Some s) =
           Inr \<lparr>Psi_returned = Psi_New (last tests),
                warned = (decrease_exceeds (Psi_Old (last tests)) (Psi_New (last tests))
                            (m_tolerance opt)
                          \<and> m_iter opt \<le> iter (last tests)),
                iterations = int (length tests) - 1,
                target = obj (last tests)\<rparr>"
    by (simp add: minimize_def Let_def minimize_loop_last tests_def [symmetric] len)
  have first: "tests ! 0 = loop_start s"
    unfolding tests_def by (subst loop_tests.simps) simp
  have chain: "\<forall>k. Suc k < length tests \<longrightarrow> tests ! Suc k = loop_body E local_min opt (tests ! k)"
    unfolding tests_def using loop_tests_chain by blast
  have before: "\<forall>t\<in>set (butlast tests).
            decrease_exceeds (Psi_Old t) (Psi_New t) (m_tolerance opt) \<and> iter t < m_iter opt"
    unfolding tests_def using loop_tests_butlast [of _ E local_min opt "loop_start s"]
    by (simp add: continue_loop_def)
  have stop: "\<not> (decrease_exceeds (Psi_Old (last tests)) (Psi_New (last tests)) (m_tolerance opt)
            \<and> iter (last tests) < m_iter opt)"
    unfolding tests_def using loop_tests_last [of opt E local_min "loop_start s"]
    by (simp add: continue_loop_def)
  have best: "0 \<le> m_tolerance opt
            \<and> decrease_exceeds (Psi_Old (last tests)) (Psi_New (last tests)) (m_tolerance opt)
            \<and> m_iter opt \<le> iter (last tests) \<longrightarrow>
          (\<forall>t\<in>set tests. Psi_New (last tests) \<le> Psi_New t)"
    unfolding tests_def using loop_tests_best [of opt E local_min "loop_start s"] by blast
  have defaults: "m_tolerance init = 1 / 10 ^ 6 \<and> m_iter init = 20"
    by (simp add: init_def)
  from ret first chain before stop len best defaults show ?thesis
    by blast
qed

lemma exact_step_Psi:
  "Psi_New (loop_body exact_eigen (single_probe (1 / 10)) one_iteration (loop_start gaussian_point))
     = 1 / 4 + ln (2 * pi) / 2"
  by (simp add: gaussian_step_Psi) (simp add: init_def one_iteration_def power2_eq_square)

lemma exact_tests:
  "loop_tests exact_eigen (single_probe (1 / 10)) one_iteration (loop_start gaussian_point)
     = [loop_start gaussian_point,
        loop_body exact_eigen (single_probe (1 / 10)) one_iteration (loop_start gaussian_point)]"
proof -
  have go: "continue_loop one_iteration (loop_start gaussian_point)"
    by (simp add: continue_loop_def decrease_exceeds_def gaussian_start)
      (simp add: init_def one_iteration_def)
  have stop: "\<not> continue_loop one_iteration
                  (loop_body exact_eigen (single_probe (1 / 10)) one_iteration
                     (loop_start gaussian_point))"
    by (simp add: continue_loop_def gaussian_step) (simp add: init_def one_iteration_def)
  show ?thesis
    by (subst loop_tests.simps, subst loop_tests.simps) (simp add: go stop)
qed

theorem newton_loop_signed_decrease_witness:
  "map_sum id Psi_returned
     (minimize exact_eigen (single_probe (1 / 10)) one_iteration (Some gaussian_point))
     = Inr (1 / 4 + ln (2 * pi) / 2)
   \<and> map_sum id warned
       (minimize exact_eigen (single_probe (1 / 10)) one_iteration (Some gaussian_point))
       = Inr True
   \<and> map_sum id iterations
       (minimize exact_eigen (single_probe (1 / 10)) one_iteration (Some gaussian_point))
       = Inr 1
   \<and> length (loop_tests exact_eigen (single_probe (1 / 10)) one_iteration
               (loop_start gaussian_point)) = 2
   \<and> 0 \<le> m_tolerance one_iteration
   \<and> 1 / 4 + ln (2 * pi) / 2 \<le> Psi_New (loop_start gaussian_point)"
  using newton_loop_signed_decrease
          [of exact_eigen "single_probe (1 / 10)" one_iteration gaussian_point]
  by (simp add: exact_tests gaussian_start gaussian_step exact_step_Psi decrease_exceeds_def)
    (simp add: init_def one_iteration_def)

subsection \<open>The negative log marginal likelihood in the indefinite branch\<close>

lemma outlier_mode_fields:
  "m_W outlier_mode = [- 4 / 25]" "m_sW outlier_mode = [- 2 / 5]"
  "m_alpha outlier_mode = [3 / 5]" "m_mu outlier_mode = [3 / 5]"
  "m_ktrtr outlier_mode = [[1]]" "m_log_scale outlier_mode = 0"
  "m_mean_f outlier_mode = [0]" "m_labels outlier_mode = [18 / 5]"
  "m_model outlier_mode = students_t_likelihood" "m_mean outlier_mode = zero_mean"
  "m_features outlier_mode = [[0]]"
  by (simp_all add: outlier_mode_def update_chol_def run_defs power2_eq_square sqrt_4_25)

text \<open>At this point the Newton direction is zero: the optimizer stays there.\<close>

lemma outlier_newton_direction:
  "newton_dalpha exact_eigen (compute_sW (regularize outlier_start)) = [0]"
  by (simp add: outlier_start_def run_defs power2_eq_square)

text \<open>
  Claim C1 is not what the code computes. At the mode of the Student's t point
  (\<open>W = - 4/25\<close>, hence \<open>sW = - 2/5\<close>; the gradient of \<open>Psi\<close> and the Newton direction
  are zero and \<open>f\<close> is consistent with alpha), \<open>get_negative_log_marginal_likelihood\<close> takes the determinant
  of \<open>I + K * scale\<^sup>2 * diag(sW) = (3/5)\<close>, where the claim, \<open>update_chol\<close> and
  \<open>update_deriv\<close> have \<open>I + K * scale\<^sup>2 * diag(W) = (21/25)\<close>; the two values of the
  negative log marginal likelihood differ.
\<close>

theorem nlml_indefinite_determinant_of_sW:
  "minCoeff (m_W outlier_mode) < 0
   \<and> f_consistent outlier_mode
   \<and> gradient_wrt_alpha outlier_mode = [0]
   \<and> newton_dalpha exact_eigen (compute_sW (regularize outlier_start)) = [0]
   \<and> lu_matrix outlier_mode (m_sW outlier_mode) = [[3 / 5]]
   \<and> lu_matrix outlier_mode (m_W outlier_mode) = [[21 / 25]]
   \<and> get_negative_log_marginal_likelihood exact_eigen outlier_mode
       = 9 / 50 + ln pi + ln 10 + ln (3 / 5) / 2
   \<and> nlml_indefinite_spec exact_eigen outlier_mode
       = 9 / 50 + ln pi + ln 10 + ln (21 / 25) / 2
   \<and> get_negative_log_marginal_likelihood exact_eigen outlier_mode
       \<noteq> nlml_indefinite_spec exact_eigen outlier_mode"
proof -
  have neg: "minCoeff (m_W outlier_mode) < 0"
    by (simp add: outlier_mode_fields)
  have cons: "f_consistent outlier_mode"
    by (simp add: f_consistent_def outlier_mode_fields run_defs)
  have grad: "gradient_wrt_alpha outlier_mode = [0]"
    by (simp add: gradient_wrt_alpha_def outlier_mode_fields run_defs power2_eq_square)
  have A_sW: "lu_matrix outlier_mode (m_sW outlier_mode) = [[3 / 5]]"
    and A_W: "lu_matrix outlier_mode (m_W outlier_mode) = [[21 / 25]]"
    by (simp_all add: outlier_mode_fields run_defs)
  have code: "get_negative_log_marginal_likelihood exact_eigen outlier_mode
       = 9 / 50 + ln pi + ln 10 + ln (3 / 5) / 2"
    by (simp add: get_negative_log_marginal_likelihood_def outlier_mode_fields run_defs
        power2_eq_square)
  have spec: "nlml_indefinite_spec exact_eigen outlier_mode
       = 9 / 50 + ln pi + ln 10 + ln (21 / 25) / 2"
    by (simp add: nlml_indefinite_spec_def outlier_mode_fields run_defs power2_eq_square)
  have "ln (3 / 5 :: real) < ln (21 / 25)"
    by (subst ln_less_cancel_iff) simp_all
  with code spec have "get_negative_log_marginal_likelihood exact_eigen outlier_mode
       \<noteq> nlml_indefinite_spec exact_eigen outlier_mode"
    by simp
  with neg cons grad outlier_newton_direction A_sW A_W code spec show ?thesis by blast
qed

end
